theory Spec2Isabelle
  imports Complex_Main
begin

section \<open>The geometry kernel\<close>

text \<open>
  \<^verbatim>\<open>joints.py\<close> starts with \<^verbatim>\<open>from build123d import *\<close>: locations, vectors, axes and
  planes are objects of the geometry kernel, whose code is not part of the joint module.
  The joints only call the kernel, so the kernel is a parameter of every function below:
  a record with one field for each kernel call that \<^verbatim>\<open>joints.py\<close> makes.
  The type variables stand for \<^verbatim>\<open>Location\<close> (\<open>'l\<close>), \<^verbatim>\<open>Vector\<close> (\<open>'v\<close>), \<^verbatim>\<open>Axis\<close> (\<open>'a\<close>)
  and \<^verbatim>\<open>Plane\<close> (\<open>'p\<close>). Nothing is assumed about the kernel (no associativity, no
  inverse law): every theorem holds for every kernel, and placements are stated with the
  bracketing the code computes them in. The kernel's operations are total here; an
  exception raised inside the kernel is not modelled.

  Python's \<^verbatim>\<open>float\<close> is modelled by \<^typ>\<open>real\<close>. The joints only compare, add and halve
  these numbers. The default \<^verbatim>\<open>(0, inf)\<close> of a linear range has no counterpart in
  \<^typ>\<open>real\<close>, so every range is passed explicitly.
\<close>

record ('l, 'v, 'a, 'p) kernel =
  loc_mul :: "'l \<Rightarrow> 'l \<Rightarrow> 'l"  \<comment> \<open>\<^verbatim>\<open>Location.__mul__\<close>\<close>
  loc_inverse :: "'l \<Rightarrow> 'l"  \<comment> \<open>\<^verbatim>\<open>Location.inverse()\<close>\<close>
  loc_relative_to :: "'l \<Rightarrow> 'l \<Rightarrow> 'l"  \<comment> \<open>\<^verbatim>\<open>Location.relative_to(other)\<close>\<close>
  loc_orientation :: "'l \<Rightarrow> 'v"  \<comment> \<open>\<^verbatim>\<open>Location.orientation\<close>\<close>
  Location_id :: "'l"  \<comment> \<open>\<^verbatim>\<open>Location()\<close>\<close>
  Location_vec :: "'v \<Rightarrow> 'l"  \<comment> \<open>\<^verbatim>\<open>Location(vector)\<close>\<close>
  Location_plane :: "'p \<Rightarrow> 'l"  \<comment> \<open>\<^verbatim>\<open>Location(plane)\<close>\<close>
  Rotation :: "real \<Rightarrow> real \<Rightarrow> real \<Rightarrow> 'l"  \<comment> \<open>\<^verbatim>\<open>Rotation(x, y, z)\<close>\<close>
  Plane_oxz :: "'v \<Rightarrow> 'v \<Rightarrow> 'v \<Rightarrow> 'p"  \<comment> \<open>\<^verbatim>\<open>Plane(origin=, x_dir=, z_dir=)\<close>\<close>
  Plane_oz :: "'v \<Rightarrow> 'v \<Rightarrow> 'p"  \<comment> \<open>\<^verbatim>\<open>Plane(origin=, z_dir=)\<close>\<close>
  plane_x_dir :: "'p \<Rightarrow> 'v"  \<comment> \<open>\<^verbatim>\<open>Plane.x_dir\<close>\<close>
  plane_to_location :: "'p \<Rightarrow> 'l"  \<comment> \<open>\<^verbatim>\<open>Plane.to_location()\<close>\<close>
  vec :: "real \<Rightarrow> real \<Rightarrow> real \<Rightarrow> 'v"  \<comment> \<open>a tuple \<^verbatim>\<open>(x, y, z)\<close> read as a vector\<close>
  vec_add :: "'v \<Rightarrow> 'v \<Rightarrow> 'v"  \<comment> \<open>\<^verbatim>\<open>Vector.__add__\<close>\<close>
  vec_scale :: "'v \<Rightarrow> real \<Rightarrow> 'v"  \<comment> \<open>\<^verbatim>\<open>Vector.__mul__\<close> by a number\<close>
  vec_rotate :: "'v \<Rightarrow> 'a \<Rightarrow> real \<Rightarrow> 'v"  \<comment> \<open>\<^verbatim>\<open>Vector.rotate(axis, angle)\<close>\<close>
  vec_X :: "'v \<Rightarrow> real"  \<comment> \<open>\<^verbatim>\<open>Vector.X\<close>\<close>
  vec_Y :: "'v \<Rightarrow> real"  \<comment> \<open>\<^verbatim>\<open>Vector.Y\<close>\<close>
  vec_Z :: "'v \<Rightarrow> real"  \<comment> \<open>\<^verbatim>\<open>Vector.Z\<close>\<close>
  Axis :: "'v \<Rightarrow> 'v \<Rightarrow> 'a"  \<comment> \<open>\<^verbatim>\<open>Axis(origin, direction)\<close>\<close>
  Axis_Z :: "'a"  \<comment> \<open>\<^verbatim>\<open>Axis.Z\<close>\<close>
  axis_position :: "'a \<Rightarrow> 'v"  \<comment> \<open>\<^verbatim>\<open>Axis.position\<close>\<close>
  axis_direction :: "'a \<Rightarrow> 'v"  \<comment> \<open>\<^verbatim>\<open>Axis.direction\<close>\<close>
  axis_is_normal :: "'a \<Rightarrow> 'a \<Rightarrow> bool"  \<comment> \<open>\<^verbatim>\<open>Axis.is_normal(other)\<close>\<close>
  axis_located :: "'a \<Rightarrow> 'l \<Rightarrow> 'a"  \<comment> \<open>\<^verbatim>\<open>Axis.located(location)\<close>\<close>
  axis_to_location :: "'a \<Rightarrow> 'l"  \<comment> \<open>\<^verbatim>\<open>Axis.to_location()\<close>\<close>

section \<open>Joints, bodies and the store\<close>

text \<open>
  Python objects are shared and mutated in place, and the claims depend on which object
  a call changes, so bodies and joints live in a store. A body is named by a number. A
  joint is named by a reference that carries the joint's class, as a Python object carries
  its type: \<^verbatim>\<open>isinstance(other, RigidJoint)\<close> is a test on the reference.
\<close>

type_synonym body_id = nat

datatype joint_ref =
  RigidJoint nat
  | RevoluteJoint nat
  | LinearJoint nat
  | CylindricalJoint nat
  | BallJoint nat

datatype error = TypeError | ValueError | AttributeError

text \<open>
  The attributes every joint has: \<^verbatim>\<open>label\<close> and \<^verbatim>\<open>to_part\<close> are set by each subclass,
  \<^verbatim>\<open>parent\<close> and \<^verbatim>\<open>connected_to\<close> by \<^verbatim>\<open>Joint.__init__\<close>.
\<close>

record joint_base =
  label :: string
  to_part :: body_id
  parent :: body_id
  connected_to :: "joint_ref option"

text \<open>
  The attributes of each subclass. A name that several classes use carries the class as a
  suffix. An attribute of type \<open>option\<close> is \<^verbatim>\<open>None\<close> in Python, or not assigned yet:
  \<^verbatim>\<open>LinearJoint.angle\<close>, \<^verbatim>\<open>CylindricalJoint.position\<close> and \<^verbatim>\<open>CylindricalJoint.angle\<close> are
  assigned by \<^verbatim>\<open>connect_to\<close> only (\<^verbatim>\<open>CylindricalJoint.__init__\<close> assigns
  \<^verbatim>\<open>linear_position\<close> and \<^verbatim>\<open>rotational_position\<close>, which nothing else writes).
\<close>

record 'l rigid_joint = joint_base +
  relative_location_rigid :: 'l

record ('v, 'a) revolute_joint = joint_base +
  range_rev :: "real \<times> real"
  angle_reference_rev :: 'v
  angle_rev :: "real option"
  relative_axis_rev :: 'a

record 'a linear_joint = joint_base +
  axis_lin :: 'a
  range_lin :: "real \<times> real"
  position_lin :: "real option"
  relative_axis_lin :: 'a
  angle_lin :: "real option"

record ('v, 'a) cylindrical_joint = joint_base +
  axis_cyl :: 'a
  linear_position_cyl :: "real option"
  rotational_position_cyl :: "real option"
  angle_reference_cyl :: 'v
  rotational_range_cyl :: "real \<times> real"
  linear_range_cyl :: "real \<times> real"
  relative_axis_cyl :: 'a
  position_cyl :: "real option"
  angle_cyl :: "real option"

record ('l, 'p) ball_joint = joint_base +
  relative_location_ball :: 'l
  angle_range_ball :: "(real \<times> real) \<times> (real \<times> real) \<times> (real \<times> real)"
  angle_reference_ball :: 'p

text \<open>
  The store: \<^verbatim>\<open>location\<close> and \<^verbatim>\<open>joints\<close> are the two attributes of a body
  (\<^verbatim>\<open>JointBox\<close>) that the joints use, and each class of joints has its objects.
\<close>

record ('l, 'v, 'a, 'p) state =
  location :: "body_id \<Rightarrow> 'l"
  joints :: "body_id \<Rightarrow> (string \<rightharpoonup> joint_ref)"
  rigid_joints :: "nat \<Rightarrow> 'l rigid_joint"
  revolute_joints :: "nat \<Rightarrow> ('v, 'a) revolute_joint"
  linear_joints :: "nat \<Rightarrow> 'a linear_joint"
  cylindrical_joints :: "nat \<Rightarrow> ('v, 'a) cylindrical_joint"
  ball_joints :: "nat \<Rightarrow> ('l, 'p) ball_joint"

text \<open>
  A call returns the store it leaves behind, or raises: \<open>Inl (e, s)\<close> is the exception
  \<open>e\<close> raised in store \<open>s\<close>, so that what a failed call has already written is visible.
\<close>

type_synonym ('l, 'v, 'a, 'p) result =
  "(error \<times> ('l, 'v, 'a, 'p) state) + ('l, 'v, 'a, 'p) state"

text \<open>\<^verbatim>\<open>other.parent\<close>: every joint has the attribute.\<close>

definition parent_of :: "('l, 'v, 'a, 'p) state \<Rightarrow> joint_ref \<Rightarrow> body_id" where
  "parent_of s j =
     (case j of
        RigidJoint i \<Rightarrow> parent (rigid_joints s i)
      | RevoluteJoint i \<Rightarrow> parent (revolute_joints s i)
      | LinearJoint i \<Rightarrow> parent (linear_joints s i)
      | CylindricalJoint i \<Rightarrow> parent (cylindrical_joints s i)
      | BallJoint i \<Rightarrow> parent (ball_joints s i))"

text \<open>
  \<^verbatim>\<open>other.relative_location\<close>: only \<^verbatim>\<open>RigidJoint\<close> and \<^verbatim>\<open>BallJoint\<close> assign the
  attribute; on the other classes the read raises \<^verbatim>\<open>AttributeError\<close> (\<open>None\<close> here).
\<close>

definition relative_location_of :: "('l, 'v, 'a, 'p) state \<Rightarrow> joint_ref \<Rightarrow> 'l option" where
  "relative_location_of s j =
     (case j of
        RigidJoint i \<Rightarrow> Some (relative_location_rigid (rigid_joints s i))
      | BallJoint i \<Rightarrow> Some (relative_location_ball (ball_joints s i))
      | _ \<Rightarrow> None)"


text \<open>\<^verbatim>\<open>body.locate(loc)\<close> replaces the body's location.\<close>

definition locate ::
  "('l, 'v, 'a, 'p) state \<Rightarrow> body_id \<Rightarrow> 'l \<Rightarrow> ('l, 'v, 'a, 'p) state" where
  "locate s b l = s\<lparr>location := (location s)(b := l)\<rparr>"

text \<open>\<^verbatim>\<open>to_part.joints[label] = self\<close>\<close>

definition register ::
  "('l, 'v, 'a, 'p) state \<Rightarrow> body_id \<Rightarrow> string \<Rightarrow> joint_ref \<Rightarrow> ('l, 'v, 'a, 'p) state" where
  "register s b lbl j = s\<lparr>joints := (joints s)(b := (joints s b)(lbl \<mapsto> j))\<rparr>"

text \<open>\<^verbatim>\<open>d if x is None else x\<close>\<close>

definition or_default :: "'x option \<Rightarrow> 'x \<Rightarrow> 'x" where
  "or_default x d = (case x of None \<Rightarrow> d | Some v \<Rightarrow> v)"

text \<open>\<^verbatim>\<open>sum(range) / 2\<close> for a range \<^verbatim>\<open>(lo, hi)\<close>\<close>

definition midpoint :: "real \<times> real \<Rightarrow> real" where
  "midpoint rng = (fst rng + snd rng) / 2"

text \<open>\<^verbatim>\<open>lo <= x <= hi\<close> for a range \<^verbatim>\<open>(lo, hi)\<close>\<close>

definition in_range :: "real \<times> real \<Rightarrow> real \<Rightarrow> bool" where
  "in_range rng x = (fst rng \<le> x \<and> x \<le> snd rng)"

section \<open>RigidJoint\<close>

definition RigidJoint_init ::
  "('l, 'v, 'a, 'p) kernel \<Rightarrow> ('l, 'v, 'a, 'p) state \<Rightarrow> nat \<Rightarrow> string \<Rightarrow> body_id \<Rightarrow> 'l
     \<Rightarrow> ('l, 'v, 'a, 'p) result" where
  "RigidJoint_init K s self lbl part joint_location =
     (let obj = \<lparr>label = lbl, to_part = part, parent = part, connected_to = None,
                 relative_location_rigid =
                   loc_relative_to K joint_location (location s part)\<rparr>;
          s1 = register s part lbl (RigidJoint self)
      in Inr (s1\<lparr>rigid_joints := (rigid_joints s1)(self := obj)\<rparr>))"

text \<open>
  \<^verbatim>\<open>RigidJoint.connect_to\<close> has no \<^verbatim>\<open>isinstance\<close> test. The argument of \<^verbatim>\<open>locate\<close> is
  evaluated first; reading \<^verbatim>\<open>other.relative_location\<close> raises \<^verbatim>\<open>AttributeError\<close> when
  \<^verbatim>\<open>other\<close> has no such attribute, before anything is written.
\<close>

definition RigidJoint_connect_to ::
  "('l, 'v, 'a, 'p) kernel \<Rightarrow> ('l, 'v, 'a, 'p) state \<Rightarrow> nat \<Rightarrow> joint_ref
     \<Rightarrow> ('l, 'v, 'a, 'p) result" where
  "RigidJoint_connect_to K s self other =
     (let this = rigid_joints s self in
      case relative_location_of s other of
        None \<Rightarrow> Inl (AttributeError, s)
      | Some other_relative_location \<Rightarrow>
          let s1 = locate s (parent_of s other)
                     (loc_mul K
                        (loc_mul K (location s (parent this)) (relative_location_rigid this))
                        other_relative_location)
          in Inr (s1\<lparr>rigid_joints :=
                       (rigid_joints s1)(self := (rigid_joints s1 self)\<lparr>connected_to := Some other\<rparr>)\<rparr>))"

section \<open>RevoluteJoint\<close>

text \<open>
  \<^verbatim>\<open>angle_reference\<close> is \<open>None\<close> when the caller leaves it out. A reference that is
  passed counts as true in \<^verbatim>\<open>if angle_reference:\<close> (a non-empty tuple or a vector), and
  \<^verbatim>\<open>Vector(angle_reference)\<close> is the vector itself. When the reference is not normal to
  the axis the constructor raises before the joint is registered with its body; the
  object under construction is dropped with the exception.
\<close>

definition RevoluteJoint_init ::
  "('l, 'v, 'a, 'p) kernel \<Rightarrow> ('l, 'v, 'a, 'p) state \<Rightarrow> nat \<Rightarrow> string \<Rightarrow> body_id \<Rightarrow> 'a
     \<Rightarrow> 'v option \<Rightarrow> real \<times> real \<Rightarrow> ('l, 'v, 'a, 'p) result" where
  "RevoluteJoint_init K s self lbl part axis angle_reference rng =
     (case (case angle_reference of
              Some v \<Rightarrow>
                if \<not> axis_is_normal K axis (Axis K (vec K 0 0 0) v) then Inl ValueError
                else Inr v
            | None \<Rightarrow>
                Inr (plane_x_dir K (Plane_oz K (vec K 0 0 0) (axis_direction K axis)))) of
        Inl e \<Rightarrow> Inl (e, s)
      | Inr reference \<Rightarrow>
          let obj = \<lparr>label = lbl, to_part = part, parent = part, connected_to = None,
                     range_rev = rng, angle_reference_rev = reference, angle_rev = None,
                     relative_axis_rev =
                       axis_located K axis (loc_inverse K (location s part))\<rparr>;
              s1 = register s part lbl (RevoluteJoint self)
          in Inr (s1\<lparr>revolute_joints := (revolute_joints s1)(self := obj)\<rparr>))"

text \<open>
  \<^verbatim>\<open>RevoluteJoint.connect_to(other, angle=None)\<close>. The angle is recorded as the caller
  gave it (or as it defaulted); only afterwards is \<open>0\<close> replaced by \<open>360\<close> for the
  rotation.
\<close>

definition RevoluteJoint_connect_to ::
  "('l, 'v, 'a, 'p) kernel \<Rightarrow> ('l, 'v, 'a, 'p) state \<Rightarrow> nat \<Rightarrow> joint_ref \<Rightarrow> real option
     \<Rightarrow> ('l, 'v, 'a, 'p) result" where
  "RevoluteJoint_connect_to K s self other angle =
     (case other of
        RigidJoint i \<Rightarrow>
          let this = revolute_joints s self;
              angle = or_default angle (fst (range_rev this))
          in if \<not> in_range (range_rev this) angle then Inl (ValueError, s)
             else
               let s1 = s\<lparr>revolute_joints :=
                           (revolute_joints s)(self := this\<lparr>angle_rev := Some angle\<rparr>)\<rparr>;
                   angle = (if angle = 0 then 360 else angle);
                   rotation =
                     Location_plane K
                       (Plane_oxz K (vec K 0 0 0)
                          (vec_rotate K (angle_reference_rev this) (Axis_Z K) angle)
                          (vec K 0 0 1));
                   new_location =
                     loc_mul K
                       (loc_mul K
                          (loc_mul K (location s1 (parent this))
                             (axis_to_location K (relative_axis_rev this)))
                          rotation)
                       (loc_inverse K (relative_location_rigid (rigid_joints s1 i)));
                   s2 = locate s1 (parent_of s1 other) new_location
               in Inr (s2\<lparr>revolute_joints :=
                            (revolute_joints s2)
                              (self := (revolute_joints s2 self)\<lparr>connected_to := Some other\<rparr>)\<rparr>)
      | _ \<Rightarrow> Inl (TypeError, s))"

section \<open>LinearJoint\<close>

definition LinearJoint_init ::
  "('l, 'v, 'a, 'p) kernel \<Rightarrow> ('l, 'v, 'a, 'p) state \<Rightarrow> nat \<Rightarrow> string \<Rightarrow> body_id \<Rightarrow> 'a
     \<Rightarrow> real \<times> real \<Rightarrow> ('l, 'v, 'a, 'p) result" where
  "LinearJoint_init K s self lbl part axis rng =
     (let obj = \<lparr>label = lbl, to_part = part, parent = part, connected_to = None,
                 axis_lin = axis, range_lin = rng, position_lin = None,
                 relative_axis_lin = axis_located K axis (loc_inverse K (location s part)),
                 angle_lin = None\<rparr>;
          s1 = register s part lbl (LinearJoint self)
      in Inr (s1\<lparr>linear_joints := (linear_joints s1)(self := obj)\<rparr>))"

text \<open>
  \<^verbatim>\<open>LinearJoint.connect_to(*args, **kwargs)\<close>, after the parsing of its arguments into
  \<^verbatim>\<open>other\<close>, \<^verbatim>\<open>position\<close> and \<^verbatim>\<open>angle\<close> (each \<open>None\<close> when left out). The position is
  recorded as soon as it has passed its own test, before the angle is looked at. With a
  \<^verbatim>\<open>RevoluteJoint\<close> the angle is tested against the partner's range and the rotation is
  built from the partner's reference and the partner's axis.
\<close>

definition LinearJoint_connect_to ::
  "('l, 'v, 'a, 'p) kernel \<Rightarrow> ('l, 'v, 'a, 'p) state \<Rightarrow> nat \<Rightarrow> joint_ref \<Rightarrow> real option
     \<Rightarrow> real option \<Rightarrow> ('l, 'v, 'a, 'p) result" where
  "LinearJoint_connect_to K s self other position angle =
     (if \<not> (case other of RigidJoint _ \<Rightarrow> True | RevoluteJoint _ \<Rightarrow> True | _ \<Rightarrow> False)
      then Inl (TypeError, s)
      else
        let this = linear_joints s self;
            position =
              or_default position (midpoint (range_lin this))
        in if \<not> in_range (range_lin this) position then Inl (ValueError, s)
           else
             let s1 = s\<lparr>linear_joints :=
                         (linear_joints s)(self := this\<lparr>position_lin := Some position\<rparr>)\<rparr>
             in case (case other of
                        RevoluteJoint i \<Rightarrow>
                          let that = revolute_joints s1 i;
                              angle = or_default angle (fst (range_rev that))
                          in if \<not> in_range (range_rev that) angle then None
                             else Some (angle,
                                    Location_plane K
                                      (Plane_oxz K (vec K 0 0 0)
                                         (vec_rotate K (angle_reference_rev that)
                                            (relative_axis_rev that) angle)
                                         (axis_direction K (relative_axis_rev that))))
                      | _ \<Rightarrow> Some (0, Location_id K)) of
                  None \<Rightarrow> Inl (ValueError, s1)
                | Some (angle, rotation) \<Rightarrow>
                    let s2 = s1\<lparr>linear_joints :=
                                (linear_joints s1)
                                  (self := (linear_joints s1 self)\<lparr>angle_lin := Some angle\<rparr>)\<rparr>;
                        this = linear_joints s2 self;
                        joint_relative_position =
                          loc_mul K
                            (Location_vec K
                               (vec_add K (axis_position K (relative_axis_lin this))
                                  (vec_scale K (axis_direction K (relative_axis_lin this))
                                     position)))
                            rotation;
                        s3 = locate s2 (parent_of s2 other)
                               (loc_mul K (location s2 (parent this)) joint_relative_position)
                    in Inr (s3\<lparr>linear_joints :=
                                 (linear_joints s3)
                                   (self := (linear_joints s3 self)\<lparr>connected_to := Some other\<rparr>)\<rparr>))"

section \<open>CylindricalJoint\<close>

text \<open>
  When a reference is passed, \<^verbatim>\<open>CylindricalJoint.__init__\<close> evaluates
  \<^verbatim>\<open>Axis((0, 0, 0), self.angle_reference)\<close>: it reads the attribute of \<^verbatim>\<open>self\<close>, which
  is assigned only two lines later, where \<^verbatim>\<open>RevoluteJoint.__init__\<close> reads the parameter
  \<^verbatim>\<open>angle_reference\<close>. The read raises \<^verbatim>\<open>AttributeError\<close>.
\<close>

definition CylindricalJoint_init ::
  "('l, 'v, 'a, 'p) kernel \<Rightarrow> ('l, 'v, 'a, 'p) state \<Rightarrow> nat \<Rightarrow> string \<Rightarrow> body_id \<Rightarrow> 'a
     \<Rightarrow> 'v option \<Rightarrow> real \<times> real \<Rightarrow> real \<times> real \<Rightarrow> ('l, 'v, 'a, 'p) result" where
  "CylindricalJoint_init K s self lbl part axis angle_reference linear_range rotational_range =
     (case (case angle_reference of
              Some v \<Rightarrow> Inl AttributeError
            | None \<Rightarrow>
                Inr (plane_x_dir K (Plane_oz K (vec K 0 0 0) (axis_direction K axis)))) of
        Inl e \<Rightarrow> Inl (e, s)
      | Inr reference \<Rightarrow>
          let obj = \<lparr>label = lbl, to_part = part, parent = part, connected_to = None,
                     axis_cyl = axis, linear_position_cyl = None,
                     rotational_position_cyl = None, angle_reference_cyl = reference,
                     rotational_range_cyl = rotational_range, linear_range_cyl = linear_range,
                     relative_axis_cyl =
                       axis_located K axis (loc_inverse K (location s part)),
                     position_cyl = None, angle_cyl = None\<rparr>;
              s1 = register s part lbl (CylindricalJoint self)
          in Inr (s1\<lparr>cylindrical_joints := (cylindrical_joints s1)(self := obj)\<rparr>))"

definition CylindricalJoint_connect_to ::
  "('l, 'v, 'a, 'p) kernel \<Rightarrow> ('l, 'v, 'a, 'p) state \<Rightarrow> nat \<Rightarrow> joint_ref \<Rightarrow> real option
     \<Rightarrow> real option \<Rightarrow> ('l, 'v, 'a, 'p) result" where
  "CylindricalJoint_connect_to K s self other position angle =
     (case other of
        RigidJoint i \<Rightarrow>
          let this = cylindrical_joints s self;
              position =
                or_default position (midpoint (linear_range_cyl this))
          in if \<not> in_range (linear_range_cyl this) position then Inl (ValueError, s)
             else
               let s1 = s\<lparr>cylindrical_joints :=
                           (cylindrical_joints s)(self := this\<lparr>position_cyl := Some position\<rparr>)\<rparr>;
                   this = cylindrical_joints s1 self;
                   angle = or_default angle (midpoint (rotational_range_cyl this))
               in if \<not> in_range (rotational_range_cyl this) angle then Inl (ValueError, s1)
                  else
                    let s2 = s1\<lparr>cylindrical_joints :=
                                (cylindrical_joints s1)(self := this\<lparr>angle_cyl := Some angle\<rparr>)\<rparr>;
                        this = cylindrical_joints s2 self;
                        joint_relative_position =
                          Location_vec K
                            (vec_add K (axis_position K (relative_axis_cyl this))
                               (vec_scale K (axis_direction K (relative_axis_cyl this))
                                  position));
                        joint_rotation =
                          Location_plane K
                            (Plane_oxz K (vec K 0 0 0)
                               (vec_rotate K (angle_reference_cyl this)
                                  (relative_axis_cyl this) angle)
                               (axis_direction K (relative_axis_cyl this)));
                        s3 = locate s2 (parent_of s2 other)
                               (loc_mul K
                                  (loc_mul K (location s2 (parent this)) joint_relative_position)
                                  joint_rotation)
                    in Inr (s3\<lparr>cylindrical_joints :=
                                 (cylindrical_joints s3)
                                   (self := (cylindrical_joints s3 self)
                                      \<lparr>connected_to := Some other\<rparr>)\<rparr>)
      | _ \<Rightarrow> Inl (TypeError, s))"

section \<open>BallJoint\<close>

definition BallJoint_init ::
  "('l, 'v, 'a, 'p) kernel \<Rightarrow> ('l, 'v, 'a, 'p) state \<Rightarrow> nat \<Rightarrow> string \<Rightarrow> body_id \<Rightarrow> 'l
     \<Rightarrow> (real \<times> real) \<times> (real \<times> real) \<times> (real \<times> real) \<Rightarrow> 'p \<Rightarrow> ('l, 'v, 'a, 'p) result" where
  "BallJoint_init K s self lbl part joint_location angle_range angle_reference =
     (let obj = \<lparr>label = lbl, to_part = part, parent = part, connected_to = None,
                 relative_location_ball =
                   loc_relative_to K joint_location (location s part),
                 angle_range_ball = angle_range, angle_reference_ball = angle_reference\<rparr>;
          s1 = register s part lbl (BallJoint self)
      in Inr (s1\<lparr>ball_joints := (ball_joints s1)(self := obj)\<rparr>))"

text \<open>
  The loop \<^verbatim>\<open>for i, r in zip([0, 1, 2], [X, Y, Z])\<close> of \<^verbatim>\<open>BallJoint.connect_to\<close>: it
  raises at the first component that is outside \<^verbatim>\<open>angle_range[i]\<close>.
\<close>

fun all_in_range :: "((real \<times> real) \<times> real) list \<Rightarrow> bool" where
  "all_in_range [] = True"
| "all_in_range ((rng, r) # rest) = (if \<not> in_range rng r then False else all_in_range rest)"

text \<open>
  \<^verbatim>\<open>BallJoint.connect_to(other, angles=None)\<close>: the ranges are tested on the orientation
  of the composed rotation, not on the angles the caller passed.
\<close>

definition BallJoint_connect_to ::
  "('l, 'v, 'a, 'p) kernel \<Rightarrow> ('l, 'v, 'a, 'p) state \<Rightarrow> nat \<Rightarrow> joint_ref
     \<Rightarrow> (real \<times> real \<times> real) option \<Rightarrow> ('l, 'v, 'a, 'p) result" where
  "BallJoint_connect_to K s self other angles =
     (case other of
        RigidJoint i \<Rightarrow>
          let this = ball_joints s self;
              (range_x, range_y, range_z) = angle_range_ball this;
              rotation =
                loc_mul K
                  (case angles of
                     None \<Rightarrow> Rotation K (fst range_x) (fst range_y) (fst range_z)
                   | Some (x, y, z) \<Rightarrow> Rotation K x y z)
                  (plane_to_location K (angle_reference_ball this));
              orientation = loc_orientation K rotation
          in if \<not> all_in_range
                    [(range_x, vec_X K orientation), (range_y, vec_Y K orientation),
                     (range_z, vec_Z K orientation)]
             then Inl (ValueError, s)
             else
               let new_location =
                     loc_mul K
                       (loc_mul K
                          (loc_mul K (location s (parent this)) (relative_location_ball this))
                          rotation)
                       (loc_inverse K (relative_location_rigid (rigid_joints s i)));
                   s1 = locate s (parent_of s other) new_location
               in Inr (s1\<lparr>ball_joints :=
                            (ball_joints s1)
                              (self := (ball_joints s1 self)\<lparr>connected_to := Some other\<rparr>)\<rparr>)
      | _ \<Rightarrow> Inl (TypeError, s))"

section \<open>A kernel and a scene to run the joints on\<close>

text \<open>
  The term kernel: every kernel call builds the term of that call, so two locations are
  equal exactly when they were built by the same calls on the same arguments. Three
  operations have to compute: \<^verbatim>\<open>is_normal\<close> tests the dot product of the directions of
  two axes built from tuples, the orientation of \<open>Rotation(x, y, z) * l\<close> is read as
  \<open>(x, y, z)\<close>, and the components of a vector built from a tuple are its numbers.
\<close>

datatype tm = Num real | Fn string "tm list"

fun tm_components :: "tm \<Rightarrow> real \<times> real \<times> real" where
  "tm_components (Fn f [Num x, Num y, Num z]) = (x, y, z)"
| "tm_components t = (0, 0, 0)"

fun tm_direction :: "tm \<Rightarrow> tm" where
  "tm_direction (Fn f [p, d]) = d"
| "tm_direction t = Fn ''direction'' [t]"

fun tm_orientation :: "tm \<Rightarrow> tm" where
  "tm_orientation (Fn f [Fn g xyz, l]) = Fn ''Vector'' xyz"
| "tm_orientation t = Fn ''orientation'' [t]"

definition tm_is_normal :: "tm \<Rightarrow> tm \<Rightarrow> bool" where
  "tm_is_normal a b =
     (case (tm_components (tm_direction a), tm_components (tm_direction b)) of
        ((x, y, z), (u, v, w)) \<Rightarrow> x * u + y * v + z * w = 0)"

definition term_kernel :: "(tm, tm, tm, tm) kernel" where
  "term_kernel =
     \<lparr>loc_mul = (\<lambda>a b. Fn ''mul'' [a, b]),
      loc_inverse = (\<lambda>a. Fn ''inverse'' [a]),
      loc_relative_to = (\<lambda>a b. Fn ''relative_to'' [a, b]),
      loc_orientation = tm_orientation,
      Location_id = Fn ''Location'' [],
      Location_vec = (\<lambda>v. Fn ''Location'' [v]),
      Location_plane = (\<lambda>p. Fn ''Location'' [p]),
      Rotation = (\<lambda>x y z. Fn ''Rotation'' [Num x, Num y, Num z]),
      Plane_oxz = (\<lambda>p x z. Fn ''Plane'' [p, x, z]),
      Plane_oz = (\<lambda>p z. Fn ''Plane'' [p, z]),
      plane_x_dir = (\<lambda>p. Fn ''x_dir'' [p]),
      plane_to_location = (\<lambda>p. Fn ''to_location'' [p]),
      vec = (\<lambda>x y z. Fn ''Vector'' [Num x, Num y, Num z]),
      vec_add = (\<lambda>a b. Fn ''add'' [a, b]),
      vec_scale = (\<lambda>a c. Fn ''scale'' [a, Num c]),
      vec_rotate = (\<lambda>v a c. Fn ''rotate'' [v, a, Num c]),
      vec_X = (\<lambda>v. fst (tm_components v)),
      vec_Y = (\<lambda>v. fst (snd (tm_components v))),
      vec_Z = (\<lambda>v. snd (snd (tm_components v))),
      Axis = (\<lambda>p d. Fn ''Axis'' [p, d]),
      Axis_Z = Fn ''Axis'' [Fn ''Vector'' [Num 0, Num 0, Num 0], Fn ''Vector'' [Num 0, Num 0, Num 1]],
      axis_position = (\<lambda>a. Fn ''position'' [a]),
      axis_direction = tm_direction,
      axis_is_normal = tm_is_normal,
      axis_located = (\<lambda>a l. Fn ''located'' [a, l]),
      axis_to_location = (\<lambda>a. Fn ''to_location'' [a])\<rparr>"

text \<open>
  The scene: body \<open>0\<close> is the base and carries one joint of each moving class, with index
  \<open>0\<close>: a hinge about the z axis with range \<open>(0, 360)\<close>, a slider along the x axis with
  range \<open>(0, 12)\<close>, a screw along the x axis with ranges \<open>(-10, 10)\<close> and \<open>(0, 360)\<close>, and a
  ball socket with ranges \<open>(0, 360)\<close>. Body \<open>1\<close> carries a pin, the hinge with index \<open>1\<close>
  about the y axis with range \<open>(0, 180)\<close>. Rigid joint \<open>i\<close> is the only joint of body
  \<open>i + 2\<close>. Nothing is connected yet. The store is total, so the indices that no body
  registers hold objects too: copies of the pin, the slider, the screw and the socket.
  The theorems below only use the indices \<open>0\<close> and \<open>1\<close>.
\<close>

definition x_axis :: tm where
  "x_axis = Fn ''Axis'' [Fn ''Vector'' [Num 0, Num 0, Num 0], Fn ''Vector'' [Num 1, Num 0, Num 0]]"

definition y_axis :: tm where
  "y_axis = Fn ''Axis'' [Fn ''Vector'' [Num 0, Num 0, Num 0], Fn ''Vector'' [Num 0, Num 1, Num 0]]"

definition z_axis :: tm where
  "z_axis = Fn ''Axis'' [Fn ''Vector'' [Num 0, Num 0, Num 0], Fn ''Vector'' [Num 0, Num 0, Num 1]]"

definition scene :: "(tm, tm, tm, tm) state" where
  "scene =
     \<lparr>location = (\<lambda>b. Fn ''placed'' [Num (real b)]),
      joints =
        (\<lambda>b. if b = 0 then
                 [''hinge'' \<mapsto> RevoluteJoint 0, ''slide'' \<mapsto> LinearJoint 0,
                  ''hole'' \<mapsto> CylindricalJoint 0, ''socket'' \<mapsto> BallJoint 0]
               else if b = 1 then [''pin'' \<mapsto> RevoluteJoint 1]
               else [''arm'' \<mapsto> RigidJoint (b - 2)]),
      rigid_joints =
        (\<lambda>i. \<lparr>label = ''arm'', to_part = i + 2, parent = i + 2, connected_to = None,
               relative_location_rigid = Fn ''at'' [Num (real i)]\<rparr>),
      revolute_joints =
        (\<lambda>i. if i = 0 then
                 \<lparr>label = ''hinge'', to_part = 0, parent = 0, connected_to = None,
                  range_rev = (0, 360),
                  angle_reference_rev = Fn ''Vector'' [Num 1, Num 0, Num 0],
                  angle_rev = None, relative_axis_rev = z_axis\<rparr>
               else
                 \<lparr>label = ''pin'', to_part = 1, parent = 1, connected_to = None,
                  range_rev = (0, 180),
                  angle_reference_rev = Fn ''Vector'' [Num 1, Num 0, Num 0],
                  angle_rev = None, relative_axis_rev = y_axis\<rparr>),
      linear_joints =
        (\<lambda>i. \<lparr>label = ''slide'', to_part = 0, parent = 0, connected_to = None,
               axis_lin = x_axis, range_lin = (0, 12), position_lin = None,
               relative_axis_lin = x_axis, angle_lin = None\<rparr>),
      cylindrical_joints =
        (\<lambda>i. \<lparr>label = ''hole'', to_part = 0, parent = 0, connected_to = None,
               axis_cyl = x_axis, linear_position_cyl = None, rotational_position_cyl = None,
               angle_reference_cyl = Fn ''Vector'' [Num 0, Num 1, Num 0],
               rotational_range_cyl = (0, 360), linear_range_cyl = (-10, 10),
               relative_axis_cyl = x_axis, position_cyl = None, angle_cyl = None\<rparr>),
      ball_joints =
        (\<lambda>i. \<lparr>label = ''socket'', to_part = 0, parent = 0, connected_to = None,
               relative_location_ball = Fn ''socket_at'' [],
               angle_range_ball = ((0, 360), (0, 360), (0, 360)),
               angle_reference_ball = Fn ''Plane_XY'' []\<rparr>)\<rparr>"

section \<open>What each call leaves behind\<close>

text \<open>
  One equation for each path through each \<^verbatim>\<open>connect_to\<close>: the store a successful call
  returns, and the store an exception is raised in. \<open>p\<close> and \<open>a\<close> are the position and
  the angle after the defaults have been filled in.
\<close>

lemma rigid_rigid:
  "RigidJoint_connect_to K s self (RigidJoint i) =
     Inr (s\<lparr>location := (location s)(parent (rigid_joints s i) :=
               loc_mul K
                 (loc_mul K (location s (parent (rigid_joints s self)))
                    (relative_location_rigid (rigid_joints s self)))
                 (relative_location_rigid (rigid_joints s i))),
            rigid_joints := (rigid_joints s)(self := (rigid_joints s self)
               \<lparr>connected_to := Some (RigidJoint i)\<rparr>)\<rparr>)"
  by (simp add: RigidJoint_connect_to_def relative_location_of_def parent_of_def locate_def Let_def)

lemma revolute_success:
  assumes "in_range (range_rev (revolute_joints s self)) a"
    and "a = or_default angle (fst (range_rev (revolute_joints s self)))"
  shows "RevoluteJoint_connect_to K s self (RigidJoint i) angle =
     Inr (s\<lparr>location := (location s)(parent (rigid_joints s i) :=
               loc_mul K
                 (loc_mul K
                    (loc_mul K (location s (parent (revolute_joints s self)))
                       (axis_to_location K (relative_axis_rev (revolute_joints s self))))
                    (Location_plane K
                       (Plane_oxz K (vec K 0 0 0)
                          (vec_rotate K (angle_reference_rev (revolute_joints s self)) (Axis_Z K)
                             (if a = 0 then 360 else a))
                          (vec K 0 0 1))))
                 (loc_inverse K (relative_location_rigid (rigid_joints s i)))),
            revolute_joints := (revolute_joints s)(self := (revolute_joints s self)
               \<lparr>angle_rev := Some a, connected_to := Some (RigidJoint i)\<rparr>)\<rparr>)"
  using assms
  by (simp add: RevoluteJoint_connect_to_def Let_def locate_def parent_of_def)

lemma revolute_range_error:
  assumes "\<not> in_range (range_rev (revolute_joints s self))
             (or_default angle (fst (range_rev (revolute_joints s self))))"
  shows "RevoluteJoint_connect_to K s self (RigidJoint i) angle = Inl (ValueError, s)"
  using assms by (simp add: RevoluteJoint_connect_to_def Let_def)

lemma linear_rigid_success:
  assumes "in_range (range_lin (linear_joints s self)) p"
    and "p = or_default position (midpoint (range_lin (linear_joints s self)))"
  shows "LinearJoint_connect_to K s self (RigidJoint i) position angle =
     Inr (s\<lparr>location := (location s)(parent (rigid_joints s i) :=
               loc_mul K (location s (parent (linear_joints s self)))
                 (loc_mul K
                    (Location_vec K
                       (vec_add K (axis_position K (relative_axis_lin (linear_joints s self)))
                          (vec_scale K
                             (axis_direction K (relative_axis_lin (linear_joints s self))) p)))
                    (Location_id K))),
            linear_joints := (linear_joints s)(self := (linear_joints s self)
               \<lparr>position_lin := Some p, angle_lin := Some 0,
                connected_to := Some (RigidJoint i)\<rparr>)\<rparr>)"
  using assms
  by (simp add: LinearJoint_connect_to_def Let_def locate_def parent_of_def)

lemma linear_revolute_success:
  assumes "in_range (range_lin (linear_joints s self)) p"
    and "p = or_default position (midpoint (range_lin (linear_joints s self)))"
    and "in_range (range_rev (revolute_joints s i)) a"
    and "a = or_default angle (fst (range_rev (revolute_joints s i)))"
  shows "LinearJoint_connect_to K s self (RevoluteJoint i) position angle =
     Inr (s\<lparr>location := (location s)(parent (revolute_joints s i) :=
               loc_mul K (location s (parent (linear_joints s self)))
                 (loc_mul K
                    (Location_vec K
                       (vec_add K (axis_position K (relative_axis_lin (linear_joints s self)))
                          (vec_scale K
                             (axis_direction K (relative_axis_lin (linear_joints s self))) p)))
                    (Location_plane K
                       (Plane_oxz K (vec K 0 0 0)
                          (vec_rotate K (angle_reference_rev (revolute_joints s i))
                             (relative_axis_rev (revolute_joints s i)) a)
                          (axis_direction K (relative_axis_rev (revolute_joints s i))))))),
            linear_joints := (linear_joints s)(self := (linear_joints s self)
               \<lparr>position_lin := Some p, angle_lin := Some a,
                connected_to := Some (RevoluteJoint i)\<rparr>)\<rparr>)"
  using assms
  by (simp add: LinearJoint_connect_to_def Let_def locate_def parent_of_def)

lemma linear_position_error:
  assumes "other = RigidJoint i \<or> other = RevoluteJoint i"
    and "\<not> in_range (range_lin (linear_joints s self))
           (or_default position (midpoint (range_lin (linear_joints s self))))"
  shows "LinearJoint_connect_to K s self other position angle = Inl (ValueError, s)"
  using assms by (auto simp add: LinearJoint_connect_to_def Let_def)

lemma linear_angle_error:
  assumes "in_range (range_lin (linear_joints s self)) p"
    and "p = or_default position (midpoint (range_lin (linear_joints s self)))"
    and "\<not> in_range (range_rev (revolute_joints s i))
           (or_default angle (fst (range_rev (revolute_joints s i))))"
  shows "LinearJoint_connect_to K s self (RevoluteJoint i) position angle =
     Inl (ValueError,
          s\<lparr>linear_joints := (linear_joints s)(self := (linear_joints s self)
               \<lparr>position_lin := Some p\<rparr>)\<rparr>)"
  using assms by (simp add: LinearJoint_connect_to_def Let_def)


lemma cylindrical_position_error:
  assumes "\<not> in_range (linear_range_cyl (cylindrical_joints s self))
           (or_default position (midpoint (linear_range_cyl (cylindrical_joints s self))))"
  shows "CylindricalJoint_connect_to K s self (RigidJoint i) position angle = Inl (ValueError, s)"
  using assms by (simp add: CylindricalJoint_connect_to_def Let_def)

lemma cylindrical_angle_error:
  assumes "in_range (linear_range_cyl (cylindrical_joints s self)) p"
    and "p = or_default position (midpoint (linear_range_cyl (cylindrical_joints s self)))"
    and "\<not> in_range (rotational_range_cyl (cylindrical_joints s self))
           (or_default angle (midpoint (rotational_range_cyl (cylindrical_joints s self))))"
  shows "CylindricalJoint_connect_to K s self (RigidJoint i) position angle =
     Inl (ValueError,
          s\<lparr>cylindrical_joints := (cylindrical_joints s)(self := (cylindrical_joints s self)
               \<lparr>position_cyl := Some p\<rparr>)\<rparr>)"
  using assms by (simp add: CylindricalJoint_connect_to_def Let_def)

lemma ball_rigid:
  assumes "angle_range_ball (ball_joints s self) = (rx, ry, rz)"
    and "or_default angles (fst rx, fst ry, fst rz) = (x, y, z)"
    and "rotation =
           loc_mul K (Rotation K x y z)
             (plane_to_location K (angle_reference_ball (ball_joints s self)))"
  shows "BallJoint_connect_to K s self (RigidJoint i) angles =
     (if in_range rx (vec_X K (loc_orientation K rotation)) \<and>
         in_range ry (vec_Y K (loc_orientation K rotation)) \<and>
         in_range rz (vec_Z K (loc_orientation K rotation))
      then Inr (s\<lparr>location := (location s)(parent (rigid_joints s i) :=
               loc_mul K
                 (loc_mul K
                    (loc_mul K (location s (parent (ball_joints s self)))
                       (relative_location_ball (ball_joints s self)))
                    rotation)
                 (loc_inverse K (relative_location_rigid (rigid_joints s i)))),
            ball_joints := (ball_joints s)(self := (ball_joints s self)
               \<lparr>connected_to := Some (RigidJoint i)\<rparr>)\<rparr>)
      else Inl (ValueError, s))"
  using assms
  by (cases angles)
    (auto simp add: BallJoint_connect_to_def Let_def locate_def parent_of_def or_default_def)

section \<open>The scene, evaluated\<close>

text \<open>Each call of the term kernel, and each object of the scene, as a rewrite rule.\<close>

lemma term_kernel_simps:
  "loc_mul term_kernel a b = Fn ''mul'' [a, b]"
  "loc_inverse term_kernel a = Fn ''inverse'' [a]"
  "loc_relative_to term_kernel a b = Fn ''relative_to'' [a, b]"
  "loc_orientation term_kernel a = tm_orientation a"
  "Location_id term_kernel = Fn ''Location'' []"
  "Location_vec term_kernel a = Fn ''Location'' [a]"
  "Location_plane term_kernel a = Fn ''Location'' [a]"
  "Rotation term_kernel x y z = Fn ''Rotation'' [Num x, Num y, Num z]"
  "Plane_oxz term_kernel a b c = Fn ''Plane'' [a, b, c]"
  "Plane_oz term_kernel a b = Fn ''Plane'' [a, b]"
  "plane_x_dir term_kernel a = Fn ''x_dir'' [a]"
  "plane_to_location term_kernel a = Fn ''to_location'' [a]"
  "vec term_kernel x y z = Fn ''Vector'' [Num x, Num y, Num z]"
  "vec_add term_kernel a b = Fn ''add'' [a, b]"
  "vec_scale term_kernel a x = Fn ''scale'' [a, Num x]"
  "vec_rotate term_kernel a b x = Fn ''rotate'' [a, b, Num x]"
  "vec_X term_kernel a = fst (tm_components a)"
  "vec_Y term_kernel a = fst (snd (tm_components a))"
  "vec_Z term_kernel a = snd (snd (tm_components a))"
  "Axis term_kernel a b = Fn ''Axis'' [a, b]"
  "Axis_Z term_kernel = z_axis"
  "axis_position term_kernel a = Fn ''position'' [a]"
  "axis_direction term_kernel a = tm_direction a"
  "axis_is_normal term_kernel a b = tm_is_normal a b"
  "axis_located term_kernel a l = Fn ''located'' [a, l]"
  "axis_to_location term_kernel a = Fn ''to_location'' [a]"
  by (simp_all add: term_kernel_def z_axis_def)

lemma scene_simps:
  "location scene b = Fn ''placed'' [Num (real b)]"
  "rigid_joints scene i =
     \<lparr>label = ''arm'', to_part = i + 2, parent = i + 2, connected_to = None,
      relative_location_rigid = Fn ''at'' [Num (real i)]\<rparr>"
  "revolute_joints scene 0 =
     \<lparr>label = ''hinge'', to_part = 0, parent = 0, connected_to = None,
      range_rev = (0, 360), angle_reference_rev = Fn ''Vector'' [Num 1, Num 0, Num 0],
      angle_rev = None, relative_axis_rev = z_axis\<rparr>"
  "revolute_joints scene (Suc n) =
     \<lparr>label = ''pin'', to_part = 1, parent = 1, connected_to = None,
      range_rev = (0, 180), angle_reference_rev = Fn ''Vector'' [Num 1, Num 0, Num 0],
      angle_rev = None, relative_axis_rev = y_axis\<rparr>"
  "linear_joints scene i =
     \<lparr>label = ''slide'', to_part = 0, parent = 0, connected_to = None,
      axis_lin = x_axis, range_lin = (0, 12), position_lin = None,
      relative_axis_lin = x_axis, angle_lin = None\<rparr>"
  "cylindrical_joints scene i =
     \<lparr>label = ''hole'', to_part = 0, parent = 0, connected_to = None,
      axis_cyl = x_axis, linear_position_cyl = None, rotational_position_cyl = None,
      angle_reference_cyl = Fn ''Vector'' [Num 0, Num 1, Num 0],
      rotational_range_cyl = (0, 360), linear_range_cyl = (-10, 10),
      relative_axis_cyl = x_axis, position_cyl = None, angle_cyl = None\<rparr>"
  "ball_joints scene i =
     \<lparr>label = ''socket'', to_part = 0, parent = 0, connected_to = None,
      relative_location_ball = Fn ''socket_at'' [],
      angle_range_ball = ((0, 360), (0, 360), (0, 360)),
      angle_reference_ball = Fn ''Plane_XY'' []\<rparr>"
  by (simp_all add: scene_def)

section \<open>RigidJoint: closed form and idempotence\<close>

text \<open>
  Claim C2. For two bodies that each carry a \<^verbatim>\<open>RigidJoint\<close>, \<^verbatim>\<open>connect_to\<close> always
  returns, and sets the location of the partner's body to
  \<open>(self.parent.location * self.relative_location) * other.relative_location\<close>. A
  second call repeats the first: when the first call has left the location of the calling
  joint's body as it was (the only body location the call reads), the second call
  returns the store it was started in, so the partner's body stays where the first call
  put it.
\<close>

theorem rigid_closed_form:
  "\<exists>s'. RigidJoint_connect_to K s self (RigidJoint i) = Inr s' \<and>
     location s' (parent (rigid_joints s i)) =
       loc_mul K
         (loc_mul K (location s (parent (rigid_joints s self)))
            (relative_location_rigid (rigid_joints s self)))
         (relative_location_rigid (rigid_joints s i)) \<and>
     (location s' (parent (rigid_joints s self)) = location s (parent (rigid_joints s self)) \<longrightarrow>
        RigidJoint_connect_to K s' self (RigidJoint i) = Inr s')"
proof -
  define a where "a = loc_mul K
         (loc_mul K (location s (parent (rigid_joints s self)))
            (relative_location_rigid (rigid_joints s self)))
         (relative_location_rigid (rigid_joints s i))"
  define s' where "s' = s\<lparr>location := (location s)(parent (rigid_joints s i) := a),
       rigid_joints := (rigid_joints s)(self := (rigid_joints s self)
          \<lparr>connected_to := Some (RigidJoint i)\<rparr>)\<rparr>"
  have first: "RigidJoint_connect_to K s self (RigidJoint i) = Inr s'"
    unfolding s'_def a_def by (rule rigid_rigid)
  have par: "parent (rigid_joints s' j) = parent (rigid_joints s j)" for j
    by (simp add: s'_def)
  have rel: "relative_location_rigid (rigid_joints s' j) = relative_location_rigid (rigid_joints s j)"
    for j
    by (simp add: s'_def)
  have second: "RigidJoint_connect_to K s' self (RigidJoint i) = Inr s'"
    if same: "location s' (parent (rigid_joints s self)) = location s (parent (rigid_joints s self))"
  proof -
    have "RigidJoint_connect_to K s' self (RigidJoint i) =
        Inr (s'\<lparr>location := (location s')(parent (rigid_joints s i) := a),
               rigid_joints := (rigid_joints s')(self := (rigid_joints s' self)
                 \<lparr>connected_to := Some (RigidJoint i)\<rparr>)\<rparr>)"
      by (simp add: rigid_rigid par rel same a_def)
    also have "\<dots> = Inr s'"
      by (simp add: s'_def)
    finally show ?thesis .
  qed
  have "location s' (parent (rigid_joints s i)) = a"
    by (simp add: s'_def)
  with first second show ?thesis
    unfolding a_def by blast
qed

text \<open>
  In the scene, rigid joint \<open>0\<close> of body \<open>2\<close> connects rigid joint \<open>1\<close> of body \<open>3\<close>: body
  \<open>3\<close> moves, body \<open>2\<close> does not, and the second call changes nothing.
\<close>

theorem rigid_closed_form_witness:
  "\<exists>s'. RigidJoint_connect_to term_kernel scene 0 (RigidJoint 1) = Inr s' \<and>
     location s' 3 =
       Fn ''mul'' [Fn ''mul'' [Fn ''placed'' [Num 2], Fn ''at'' [Num 0]], Fn ''at'' [Num 1]] \<and>
     location s' 2 = location scene 2 \<and>
     RigidJoint_connect_to term_kernel s' 0 (RigidJoint 1) = Inr s'"
proof -
  obtain s' where
    first: "RigidJoint_connect_to term_kernel scene 0 (RigidJoint 1) = Inr s'" and
    place: "location s' (parent (rigid_joints scene 1)) =
       loc_mul term_kernel
         (loc_mul term_kernel (location scene (parent (rigid_joints scene 0)))
            (relative_location_rigid (rigid_joints scene 0)))
         (relative_location_rigid (rigid_joints scene 1))" and
    again: "location s' (parent (rigid_joints scene 0)) = location scene (parent (rigid_joints scene 0)) \<longrightarrow>
        RigidJoint_connect_to term_kernel s' 0 (RigidJoint 1) = Inr s'"
    using rigid_closed_form [of term_kernel scene 0 1] by blast
  have unchanged: "location s' 2 = location scene 2"
    using first by (auto simp add: rigid_rigid scene_simps)
  from place have "location s' 3 =
       Fn ''mul'' [Fn ''mul'' [Fn ''placed'' [Num 2], Fn ''at'' [Num 0]], Fn ''at'' [Num 1]]"
    by (simp add: scene_simps term_kernel_simps numeral_3_eq_3)
  moreover from again unchanged have "RigidJoint_connect_to term_kernel s' 0 (RigidJoint 1) = Inr s'"
    by (simp add: scene_simps numeral_2_eq_2)
  ultimately show ?thesis
    using first unchanged by blast
qed

section \<open>RevoluteJoint: the angles 0 and 360\<close>

text \<open>
  Claim C3. For a \<^verbatim>\<open>RevoluteJoint\<close> whose range contains both \<open>0\<close> and \<open>360\<close>, whatever
  its axis and its reference, connecting a \<^verbatim>\<open>RigidJoint\<close> with angle \<open>0\<close> and connecting
  it with angle \<open>360\<close> both succeed and leave every body at the same location: the call
  with \<open>0\<close> builds its rotation from \<open>360\<close>.
\<close>

theorem zero_is_360:
  assumes "in_range (range_rev (revolute_joints s self)) 0"
    and "in_range (range_rev (revolute_joints s self)) 360"
  shows "\<exists>s0 s360.
     RevoluteJoint_connect_to K s self (RigidJoint i) (Some 0) = Inr s0 \<and>
     RevoluteJoint_connect_to K s self (RigidJoint i) (Some 360) = Inr s360 \<and>
     location s0 = location s360"
  using assms by (simp add: revolute_success or_default_def)

text \<open>The hinge of the scene has the range \<open>(0, 360)\<close>.\<close>

theorem zero_is_360_witness:
  "in_range (range_rev (revolute_joints scene 0)) 0 \<and>
   in_range (range_rev (revolute_joints scene 0)) 360 \<and>
   (\<exists>s0 s360.
     RevoluteJoint_connect_to term_kernel scene 0 (RigidJoint 1) (Some 0) = Inr s0 \<and>
     RevoluteJoint_connect_to term_kernel scene 0 (RigidJoint 1) (Some 360) = Inr s360 \<and>
     location s0 = location s360)"
proof -
  have a: "in_range (range_rev (revolute_joints scene 0)) 0"
    by (simp add: scene_simps in_range_def)
  have b: "in_range (range_rev (revolute_joints scene 0)) 360"
    by (simp add: scene_simps in_range_def)
  from a b zero_is_360 [OF a b, of term_kernel 1] show ?thesis by blast
qed

text \<open>
  Claim C10. After a successful \<^verbatim>\<open>RevoluteJoint.connect_to\<close> with angle \<open>0\<close> (\<open>0\<close> being
  in the range) the joint's recorded angle is \<open>0\<close>, the value the caller passed, while
  the rotation that places the partner's body is built with \<open>360\<close>.
\<close>

theorem zero_recorded:
  assumes "in_range (range_rev (revolute_joints s self)) 0"
  shows "\<exists>s'. RevoluteJoint_connect_to K s self (RigidJoint i) (Some 0) = Inr s' \<and>
     angle_rev (revolute_joints s' self) = Some 0 \<and>
     location s' (parent (rigid_joints s i)) =
       loc_mul K
         (loc_mul K
            (loc_mul K (location s (parent (revolute_joints s self)))
               (axis_to_location K (relative_axis_rev (revolute_joints s self))))
            (Location_plane K
               (Plane_oxz K (vec K 0 0 0)
                  (vec_rotate K (angle_reference_rev (revolute_joints s self)) (Axis_Z K) 360)
                  (vec K 0 0 1))))
         (loc_inverse K (relative_location_rigid (rigid_joints s i)))"
  using assms by (simp add: revolute_success or_default_def)

text \<open>The hinge of the scene, connected at angle \<open>0\<close>, records \<open>0\<close> and rotates by \<open>360\<close>.\<close>

theorem zero_recorded_witness:
  "in_range (range_rev (revolute_joints scene 0)) 0 \<and>
   (\<exists>s'. RevoluteJoint_connect_to term_kernel scene 0 (RigidJoint 1) (Some 0) = Inr s' \<and>
     angle_rev (revolute_joints s' 0) = Some 0 \<and>
     location s' 3 =
       Fn ''mul''
         [Fn ''mul''
            [Fn ''mul'' [Fn ''placed'' [Num 0], Fn ''to_location'' [z_axis]],
             Fn ''Location''
               [Fn ''Plane''
                  [Fn ''Vector'' [Num 0, Num 0, Num 0],
                   Fn ''rotate'' [Fn ''Vector'' [Num 1, Num 0, Num 0], z_axis, Num 360],
                   Fn ''Vector'' [Num 0, Num 0, Num 1]]]],
          Fn ''inverse'' [Fn ''at'' [Num 1]]])"
proof -
  have a: "in_range (range_rev (revolute_joints scene 0)) 0"
    by (simp add: scene_simps in_range_def)
  from zero_recorded [OF a, of term_kernel 1] a show ?thesis
    by (simp add: scene_simps term_kernel_simps numeral_3_eq_3)
qed

section \<open>LinearJoint: defaults\<close>

lemma or_default_simps: "or_default None d = d" "or_default (Some v) d = v"
  by (simp_all add: or_default_def)

text \<open>
  Claim C8. In \<^verbatim>\<open>LinearJoint.connect_to\<close> a position that is left out resolves to
  \<open>(range.min + range.max) / 2\<close>, and with a \<^verbatim>\<open>RevoluteJoint\<close> partner an angle that is
  left out resolves to the partner's \<open>range.min\<close>: the call without the parameter is the
  call with that value, and when it succeeds that value is what the joint records.
\<close>

theorem linear_defaults:
  "LinearJoint_connect_to K s self other None angle =
     LinearJoint_connect_to K s self other
       (Some (midpoint (range_lin (linear_joints s self)))) angle \<and>
   LinearJoint_connect_to K s self (RevoluteJoint i) position None =
     LinearJoint_connect_to K s self (RevoluteJoint i) position
       (Some (fst (range_rev (revolute_joints s i)))) \<and>
   (LinearJoint_connect_to K s self other None angle = Inr s' \<longrightarrow>
      position_lin (linear_joints s' self) = Some (midpoint (range_lin (linear_joints s self)))) \<and>
   (LinearJoint_connect_to K s self (RevoluteJoint i) position None = Inr s'' \<longrightarrow>
      angle_lin (linear_joints s'' self) = Some (fst (range_rev (revolute_joints s i))))"
proof (intro conjI impI)
  show "LinearJoint_connect_to K s self other None angle =
     LinearJoint_connect_to K s self other
       (Some (midpoint (range_lin (linear_joints s self)))) angle"
    by (simp add: LinearJoint_connect_to_def or_default_simps)
  show "LinearJoint_connect_to K s self (RevoluteJoint i) position None =
     LinearJoint_connect_to K s self (RevoluteJoint i) position
       (Some (fst (range_rev (revolute_joints s i))))"
    by (simp add: LinearJoint_connect_to_def or_default_simps Let_def)
next
  let ?p = "midpoint (range_lin (linear_joints s self))"
  assume ok: "LinearJoint_connect_to K s self other None angle = Inr s'"
  show "position_lin (linear_joints s' self) = Some ?p"
  proof (cases other)
    case (RigidJoint j)
    show ?thesis
    proof (cases "in_range (range_lin (linear_joints s self)) ?p")
      case True
      with ok RigidJoint show ?thesis
        by (auto simp add: linear_rigid_success [where p = "?p"] or_default_simps)
    next
      case False
      with ok RigidJoint show ?thesis
        by (simp add: linear_position_error [where i = j] or_default_simps)
    qed
  next
    case (RevoluteJoint j)
    let ?a = "or_default angle (fst (range_rev (revolute_joints s j)))"
    show ?thesis
    proof (cases "in_range (range_lin (linear_joints s self)) ?p")
      case True
      note pos = this
      show ?thesis
      proof (cases "in_range (range_rev (revolute_joints s j)) ?a")
        case True
        with ok RevoluteJoint pos show ?thesis
          by (auto simp add: linear_revolute_success [where p = "?p" and a = "?a"] or_default_simps)
      next
        case False
        with ok RevoluteJoint pos show ?thesis
          by (simp add: linear_angle_error [where p = "?p"] or_default_simps)
      qed
    next
      case False
      with ok RevoluteJoint show ?thesis
        by (simp add: linear_position_error [where i = j] or_default_simps)
    qed
  qed (use ok in \<open>simp_all add: LinearJoint_connect_to_def\<close>)
next
  let ?a = "fst (range_rev (revolute_joints s i))"
  let ?p = "or_default position (midpoint (range_lin (linear_joints s self)))"
  assume ok: "LinearJoint_connect_to K s self (RevoluteJoint i) position None = Inr s''"
  show "angle_lin (linear_joints s'' self) = Some ?a"
  proof (cases "in_range (range_lin (linear_joints s self)) ?p")
    case True
    note pos = this
    show ?thesis
    proof (cases "in_range (range_rev (revolute_joints s i)) ?a")
      case True
      with ok pos show ?thesis
        by (auto simp add: linear_revolute_success [where p = "?p" and a = "?a"] or_default_simps)
    next
      case False
      with ok pos show ?thesis
        by (simp add: linear_angle_error [where p = "?p"] or_default_simps)
    qed
  next
    case False
    with ok show ?thesis
      by (simp add: linear_position_error [where i = i] or_default_simps)
  qed
qed

text \<open>
  The slider of the scene has the range \<open>(0, 12)\<close> and the pin the range \<open>(0, 180)\<close>:
  with both parameters left out the slider records position \<open>6\<close> and angle \<open>0\<close>.
\<close>

theorem linear_defaults_witness:
  "\<exists>s'. LinearJoint_connect_to term_kernel scene 0 (RevoluteJoint 1) None None = Inr s' \<and>
     position_lin (linear_joints s' 0) = Some 6 \<and>
     angle_lin (linear_joints s' 0) = Some 0"
proof -
  have m: "midpoint (range_lin (linear_joints scene 0)) = 6"
    by (simp add: scene_simps midpoint_def)
  have r: "range_rev (revolute_joints scene 1) = (0, 180)"
    using scene_simps(4) [of 0] by simp
  have p: "in_range (range_lin (linear_joints scene 0)) (midpoint (range_lin (linear_joints scene 0)))"
    by (simp add: scene_simps in_range_def midpoint_def)
  have a: "in_range (range_rev (revolute_joints scene 1)) (fst (range_rev (revolute_joints scene 1)))"
    using r by (simp add: in_range_def)
  obtain s' where
    ok: "LinearJoint_connect_to term_kernel scene 0 (RevoluteJoint 1) None None = Inr s'"
    using linear_revolute_success [OF p or_default_simps(1) [symmetric] a
        or_default_simps(1) [symmetric], of term_kernel]
    by blast
  have "position_lin (linear_joints s' 0) = Some (midpoint (range_lin (linear_joints scene 0)))"
    using linear_defaults [where K = term_kernel and s = scene and self = 0
        and other = "RevoluteJoint 1" and i = 1 and position = None and angle = None
        and s' = s' and s'' = s'] ok
    by blast
  moreover
  have "angle_lin (linear_joints s' 0) = Some (fst (range_rev (revolute_joints scene 1)))"
    using linear_defaults [where K = term_kernel and s = scene and self = 0
        and other = "RevoluteJoint 1" and i = 1 and position = None and angle = None
        and s' = s' and s'' = s'] ok
    by blast
  ultimately show ?thesis
    using ok m r by simp
qed

section \<open>LinearJoint: where the partner is placed\<close>

text \<open>
  Claim C5, as amended. A \<^verbatim>\<open>LinearJoint.connect_to\<close> whose position \<open>p\<close> (after the
  default) is in range succeeds with a \<^verbatim>\<open>RigidJoint\<close> partner, records the angle \<open>0\<close>
  and places the partner's body at
  \<open>self.parent.location * (Location(origin + direction * p) * Location())\<close>, origin and
  direction being those of the joint's relative axis. With a \<^verbatim>\<open>RevoluteJoint\<close> partner
  and an angle \<open>a\<close> in the partner's range, the rotation is
  \<open>Location(Plane(origin=(0, 0, 0), x_dir=other.angle_reference.rotate(other.relative_axis, a),
  z_dir=other.relative_axis.direction))\<close>: it is built from the partner's axis, not from
  the linear joint's own axis, and the partner's body is placed at
  \<open>self.parent.location * (Location(origin + direction * p) * rotation)\<close>.
\<close>

theorem linear_placement:
  "(in_range (range_lin (linear_joints s self)) p \<and>
    p = or_default position (midpoint (range_lin (linear_joints s self))) \<longrightarrow>
    (\<exists>s'. LinearJoint_connect_to K s self (RigidJoint i) position angle = Inr s' \<and>
       angle_lin (linear_joints s' self) = Some 0 \<and>
       location s' (parent (rigid_joints s i)) =
         loc_mul K (location s (parent (linear_joints s self)))
           (loc_mul K
              (Location_vec K
                 (vec_add K (axis_position K (relative_axis_lin (linear_joints s self)))
                    (vec_scale K
                       (axis_direction K (relative_axis_lin (linear_joints s self))) p)))
              (Location_id K)))) \<and>
   (in_range (range_lin (linear_joints s self)) p \<and>
    p = or_default position (midpoint (range_lin (linear_joints s self))) \<and>
    in_range (range_rev (revolute_joints s j)) a \<and>
    a = or_default angle (fst (range_rev (revolute_joints s j))) \<longrightarrow>
    (\<exists>s'. LinearJoint_connect_to K s self (RevoluteJoint j) position angle = Inr s' \<and>
       angle_lin (linear_joints s' self) = Some a \<and>
       location s' (parent (revolute_joints s j)) =
         loc_mul K (location s (parent (linear_joints s self)))
           (loc_mul K
              (Location_vec K
                 (vec_add K (axis_position K (relative_axis_lin (linear_joints s self)))
                    (vec_scale K
                       (axis_direction K (relative_axis_lin (linear_joints s self))) p)))
              (Location_plane K
                 (Plane_oxz K (vec K 0 0 0)
                    (vec_rotate K (angle_reference_rev (revolute_joints s j))
                       (relative_axis_rev (revolute_joints s j)) a)
                    (axis_direction K (relative_axis_rev (revolute_joints s j))))))))"
proof (intro conjI impI; elim conjE)
  assume "in_range (range_lin (linear_joints s self)) p"
    and "p = or_default position (midpoint (range_lin (linear_joints s self)))"
  from linear_rigid_success [OF this, of K i angle]
  show "\<exists>s'. LinearJoint_connect_to K s self (RigidJoint i) position angle = Inr s' \<and>
       angle_lin (linear_joints s' self) = Some 0 \<and>
       location s' (parent (rigid_joints s i)) =
         loc_mul K (location s (parent (linear_joints s self)))
           (loc_mul K
              (Location_vec K
                 (vec_add K (axis_position K (relative_axis_lin (linear_joints s self)))
                    (vec_scale K
                       (axis_direction K (relative_axis_lin (linear_joints s self))) p)))
              (Location_id K))"
    by simp
next
  assume "in_range (range_lin (linear_joints s self)) p"
    and "p = or_default position (midpoint (range_lin (linear_joints s self)))"
    and "in_range (range_rev (revolute_joints s j)) a"
    and "a = or_default angle (fst (range_rev (revolute_joints s j)))"
  from linear_revolute_success [OF this, of K]
  show "\<exists>s'. LinearJoint_connect_to K s self (RevoluteJoint j) position angle = Inr s' \<and>
       angle_lin (linear_joints s' self) = Some a \<and>
       location s' (parent (revolute_joints s j)) =
         loc_mul K (location s (parent (linear_joints s self)))
           (loc_mul K
              (Location_vec K
                 (vec_add K (axis_position K (relative_axis_lin (linear_joints s self)))
                    (vec_scale K
                       (axis_direction K (relative_axis_lin (linear_joints s self))) p)))
              (Location_plane K
                 (Plane_oxz K (vec K 0 0 0)
                    (vec_rotate K (angle_reference_rev (revolute_joints s j))
                       (relative_axis_rev (revolute_joints s j)) a)
                    (axis_direction K (relative_axis_rev (revolute_joints s j))))))"
    by simp
qed

text \<open>Position \<open>8\<close> is in the range of the slider, angle \<open>60\<close> in the range of the pin.\<close>

lemma scene_slide_8: "in_range (range_lin (linear_joints scene 0)) 8"
  by (simp add: scene_simps in_range_def)

lemma scene_pin_60: "in_range (range_rev (revolute_joints scene (Suc 0))) 60"
  by (simp add: scene_simps in_range_def)

text \<open>The slider of the scene, connected at position \<open>8\<close> to an arm and to the pin.\<close>

theorem linear_placement_witness:
  "(\<exists>s'. LinearJoint_connect_to term_kernel scene 0 (RigidJoint 0) (Some 8) None = Inr s' \<and>
       angle_lin (linear_joints s' 0) = Some 0 \<and>
       location s' 2 =
         Fn ''mul''
           [Fn ''placed'' [Num 0],
            Fn ''mul''
              [Fn ''Location''
                 [Fn ''add''
                    [Fn ''position'' [x_axis],
                     Fn ''scale'' [Fn ''Vector'' [Num 1, Num 0, Num 0], Num 8]]],
               Fn ''Location'' []]]) \<and>
   (\<exists>s'. LinearJoint_connect_to term_kernel scene 0 (RevoluteJoint (Suc 0)) (Some 8) (Some 60) =
         Inr s' \<and>
       angle_lin (linear_joints s' 0) = Some 60 \<and>
       location s' (Suc 0) =
         Fn ''mul''
           [Fn ''placed'' [Num 0],
            Fn ''mul''
              [Fn ''Location''
                 [Fn ''add''
                    [Fn ''position'' [x_axis],
                     Fn ''scale'' [Fn ''Vector'' [Num 1, Num 0, Num 0], Num 8]]],
               Fn ''Location''
                 [Fn ''Plane''
                    [Fn ''Vector'' [Num 0, Num 0, Num 0],
                     Fn ''rotate'' [Fn ''Vector'' [Num 1, Num 0, Num 0], y_axis, Num 60],
                     Fn ''Vector'' [Num 0, Num 1, Num 0]]]]])"
proof
  show "\<exists>s'. LinearJoint_connect_to term_kernel scene 0 (RigidJoint 0) (Some 8) None = Inr s' \<and>
       angle_lin (linear_joints s' 0) = Some 0 \<and>
       location s' 2 =
         Fn ''mul''
           [Fn ''placed'' [Num 0],
            Fn ''mul''
              [Fn ''Location''
                 [Fn ''add''
                    [Fn ''position'' [x_axis],
                     Fn ''scale'' [Fn ''Vector'' [Num 1, Num 0, Num 0], Num 8]]],
               Fn ''Location'' []]]"
    using linear_placement [where K = term_kernel and s = scene and self = 0 and p = 8
        and position = "Some 8" and i = 0 and angle = None] scene_slide_8
    by (simp add: or_default_simps scene_simps term_kernel_simps x_axis_def numeral_2_eq_2)
next
  show "\<exists>s'. LinearJoint_connect_to term_kernel scene 0 (RevoluteJoint (Suc 0)) (Some 8) (Some 60) =
         Inr s' \<and>
       angle_lin (linear_joints s' 0) = Some 60 \<and>
       location s' (Suc 0) =
         Fn ''mul''
           [Fn ''placed'' [Num 0],
            Fn ''mul''
              [Fn ''Location''
                 [Fn ''add''
                    [Fn ''position'' [x_axis],
                     Fn ''scale'' [Fn ''Vector'' [Num 1, Num 0, Num 0], Num 8]]],
               Fn ''Location''
                 [Fn ''Plane''
                    [Fn ''Vector'' [Num 0, Num 0, Num 0],
                     Fn ''rotate'' [Fn ''Vector'' [Num 1, Num 0, Num 0], y_axis, Num 60],
                     Fn ''Vector'' [Num 0, Num 1, Num 0]]]]]"
    using linear_placement [where K = term_kernel and s = scene and self = 0 and p = 8
        and position = "Some 8" and j = "Suc 0" and a = 60 and angle = "Some 60"]
      scene_slide_8 scene_pin_60
    by (simp add: or_default_simps scene_simps term_kernel_simps x_axis_def y_axis_def)
qed

text \<open>
  Claim C5 as it is written has the rotation built from
  \<open>other.reference.rotate(self.axis.direction, angle)\<close> with z along the linear joint's
  axis. In the scene the slider runs along the x axis (\<^verbatim>\<open>axis\<close> and \<^verbatim>\<open>relative_axis\<close>
  alike) and the pin turns about the y axis: the location the call gives to the pin's body
  is not the one the claim describes.
\<close>

theorem pin_slot_counterexample:
  "(case LinearJoint_connect_to term_kernel scene 0 (RevoluteJoint (Suc 0)) (Some 8) (Some 60) of
      Inl e \<Rightarrow> False
    | Inr s' \<Rightarrow>
        location s' (Suc 0) \<noteq>
          loc_mul term_kernel (location scene 0)
            (loc_mul term_kernel
               (Location_vec term_kernel
                  (vec_add term_kernel
                     (axis_position term_kernel (relative_axis_lin (linear_joints scene 0)))
                     (vec_scale term_kernel
                        (axis_direction term_kernel (relative_axis_lin (linear_joints scene 0)))
                        8)))
               (Location_plane term_kernel
                  (Plane_oxz term_kernel (vec term_kernel 0 0 0)
                     (vec_rotate term_kernel (angle_reference_rev (revolute_joints scene (Suc 0)))
                        (relative_axis_lin (linear_joints scene 0)) 60)
                     (axis_direction term_kernel (relative_axis_lin (linear_joints scene 0)))))))"
  by (simp add: linear_revolute_success [OF scene_slide_8 _ scene_pin_60] or_default_simps
      scene_simps term_kernel_simps x_axis_def y_axis_def)


section \<open>BallJoint\<close>

text \<open>
  Claim C6. For a \<^verbatim>\<open>BallJoint.connect_to\<close> with a \<^verbatim>\<open>RigidJoint\<close> partner: angles that are
  left out resolve to the minima of the three ranges; the rotation is
  \<open>Rotation(x, y, z) * angle_reference.to_location()\<close>; the three components of the
  orientation of that rotation (not the angles passed) are tested against the three
  ranges, and the call raises \<^verbatim>\<open>ValueError\<close>, leaving the store as it was, when one of
  them is outside; otherwise the partner's body is placed at
  \<open>((self.parent.location * self.relative_location) * rotation) *
  other.relative_location.inverse()\<close>.
\<close>

theorem ball_connect:
  assumes "angle_range_ball (ball_joints s self) = (range_x, range_y, range_z)"
    and "rotation =
           loc_mul K (Rotation K x y z)
             (plane_to_location K (angle_reference_ball (ball_joints s self)))"
    and "euler = loc_orientation K rotation"
  shows "BallJoint_connect_to K s self (RigidJoint i) None =
           BallJoint_connect_to K s self (RigidJoint i)
             (Some (fst range_x, fst range_y, fst range_z)) \<and>
         BallJoint_connect_to K s self (RigidJoint i) (Some (x, y, z)) =
           (if in_range range_x (vec_X K euler) \<and> in_range range_y (vec_Y K euler) \<and>
               in_range range_z (vec_Z K euler)
            then Inr (s\<lparr>location := (location s)(parent (rigid_joints s i) :=
                       loc_mul K
                         (loc_mul K
                            (loc_mul K (location s (parent (ball_joints s self)))
                               (relative_location_ball (ball_joints s self)))
                            rotation)
                         (loc_inverse K (relative_location_rigid (rigid_joints s i)))),
                     ball_joints := (ball_joints s)(self := (ball_joints s self)
                        \<lparr>connected_to := Some (RigidJoint i)\<rparr>)\<rparr>)
            else Inl (ValueError, s))"
proof
  show "BallJoint_connect_to K s self (RigidJoint i) None =
      BallJoint_connect_to K s self (RigidJoint i)
        (Some (fst range_x, fst range_y, fst range_z))"
    using assms(1) by (simp add: BallJoint_connect_to_def)
next
  have "or_default (Some (x, y, z)) (fst range_x, fst range_y, fst range_z) = (x, y, z)"
    by (simp add: or_default_simps)
  from ball_rigid [OF assms(1) this assms(2), of i] assms(3)
  show "BallJoint_connect_to K s self (RigidJoint i) (Some (x, y, z)) =
      (if in_range range_x (vec_X K euler) \<and> in_range range_y (vec_Y K euler) \<and>
          in_range range_z (vec_Z K euler)
       then Inr (s\<lparr>location := (location s)(parent (rigid_joints s i) :=
                  loc_mul K
                    (loc_mul K
                       (loc_mul K (location s (parent (ball_joints s self)))
                          (relative_location_ball (ball_joints s self)))
                       rotation)
                    (loc_inverse K (relative_location_rigid (rigid_joints s i)))),
                ball_joints := (ball_joints s)(self := (ball_joints s self)
                   \<lparr>connected_to := Some (RigidJoint i)\<rparr>)\<rparr>)
       else Inl (ValueError, s))"
    by simp
qed

text \<open>
  The socket of the scene has the ranges \<open>(0, 360)\<close>; the term kernel reads the orientation
  of the rotation as the angles it was built from.
\<close>

theorem ball_connect_witness:
  "BallJoint_connect_to term_kernel scene 0 (RigidJoint 0) None =
     BallJoint_connect_to term_kernel scene 0 (RigidJoint 0) (Some (0, 0, 0)) \<and>
   BallJoint_connect_to term_kernel scene 0 (RigidJoint 0) (Some (10, 20, 30)) =
     Inr (scene\<lparr>location := (location scene)(2 :=
            Fn ''mul''
              [Fn ''mul''
                 [Fn ''mul'' [Fn ''placed'' [Num 0], Fn ''socket_at'' []],
                  Fn ''mul''
                    [Fn ''Rotation'' [Num 10, Num 20, Num 30],
                     Fn ''to_location'' [Fn ''Plane_XY'' []]]],
               Fn ''inverse'' [Fn ''at'' [Num 0]]]),
          ball_joints := (ball_joints scene)(0 := (ball_joints scene 0)
            \<lparr>connected_to := Some (RigidJoint 0)\<rparr>)\<rparr>) \<and>
   BallJoint_connect_to term_kernel scene 0 (RigidJoint 0) (Some (10, 20, - 30)) =
     Inl (ValueError, scene)"
proof -
  have rng: "angle_range_ball (ball_joints scene 0) = ((0, 360), (0, 360), (0, 360))"
    by (simp add: scene_simps)
  from ball_connect [OF rng refl refl, where K = term_kernel and x = 10 and y = 20 and z = 30
      and i = 0]
    ball_connect [OF rng refl refl, where K = term_kernel and x = 10 and y = 20 and z = "- 30"
      and i = 0]
  show ?thesis
    by (simp add: scene_simps term_kernel_simps in_range_def numeral_2_eq_2)
qed

section \<open>What a range error leaves behind\<close>

text \<open>
  Claim C1, as amended. With a partner of an accepted class, a position or an angle that
  is outside its range after the default has been filled in makes \<^verbatim>\<open>connect_to\<close> raise
  \<^verbatim>\<open>ValueError\<close> (the spec's RangeError), and no body location, no \<^verbatim>\<open>connected_to\<close> and
  no recorded angle is changed. The recorded position is unchanged too when it is the
  position that is out of range. When the position \<open>p\<close> is in range and the angle is not
  (\<^verbatim>\<open>LinearJoint\<close> with a \<^verbatim>\<open>RevoluteJoint\<close> partner, whose range the angle is tested
  against, and \<^verbatim>\<open>CylindricalJoint\<close>), the exception is raised in a store where the joint
  has already recorded \<open>p\<close> as its position: that is the only change. \<^verbatim>\<open>BallJoint\<close>
  tests the orientation of its rotation, and raises in the unchanged store when a
  component is outside its range.
\<close>

theorem range_error_effects:
  "(\<not> in_range (range_rev (revolute_joints s self))
        (or_default angle (fst (range_rev (revolute_joints s self)))) \<longrightarrow>
      RevoluteJoint_connect_to K s self (RigidJoint i) angle = Inl (ValueError, s)) \<and>
   ((other = RigidJoint i \<or> other = RevoluteJoint i) \<and>
    \<not> in_range (range_lin (linear_joints s self))
        (or_default position (midpoint (range_lin (linear_joints s self)))) \<longrightarrow>
      LinearJoint_connect_to K s self other position angle = Inl (ValueError, s)) \<and>
   (in_range (range_lin (linear_joints s self)) p \<and>
    p = or_default position (midpoint (range_lin (linear_joints s self))) \<and>
    \<not> in_range (range_rev (revolute_joints s i))
        (or_default angle (fst (range_rev (revolute_joints s i)))) \<longrightarrow>
      LinearJoint_connect_to K s self (RevoluteJoint i) position angle =
        Inl (ValueError,
             s\<lparr>linear_joints := (linear_joints s)(self := (linear_joints s self)
                  \<lparr>position_lin := Some p\<rparr>)\<rparr>)) \<and>
   (\<not> in_range (linear_range_cyl (cylindrical_joints s self))
        (or_default position (midpoint (linear_range_cyl (cylindrical_joints s self)))) \<longrightarrow>
      CylindricalJoint_connect_to K s self (RigidJoint i) position angle = Inl (ValueError, s)) \<and>
   (in_range (linear_range_cyl (cylindrical_joints s self)) q \<and>
    q = or_default position (midpoint (linear_range_cyl (cylindrical_joints s self))) \<and>
    \<not> in_range (rotational_range_cyl (cylindrical_joints s self))
        (or_default angle (midpoint (rotational_range_cyl (cylindrical_joints s self)))) \<longrightarrow>
      CylindricalJoint_connect_to K s self (RigidJoint i) position angle =
        Inl (ValueError,
             s\<lparr>cylindrical_joints := (cylindrical_joints s)(self := (cylindrical_joints s self)
                  \<lparr>position_cyl := Some q\<rparr>)\<rparr>)) \<and>
   (angle_range_ball (ball_joints s self) = (range_x, range_y, range_z) \<and>
    or_default angles (fst range_x, fst range_y, fst range_z) = (x, y, z) \<and>
    euler =
      loc_orientation K
        (loc_mul K (Rotation K x y z)
           (plane_to_location K (angle_reference_ball (ball_joints s self)))) \<and>
    \<not> (in_range range_x (vec_X K euler) \<and> in_range range_y (vec_Y K euler) \<and>
       in_range range_z (vec_Z K euler)) \<longrightarrow>
      BallJoint_connect_to K s self (RigidJoint i) angles = Inl (ValueError, s))"
proof (intro conjI impI; (elim conjE)?)
  assume "\<not> in_range (range_rev (revolute_joints s self))
        (or_default angle (fst (range_rev (revolute_joints s self))))"
  then show "RevoluteJoint_connect_to K s self (RigidJoint i) angle = Inl (ValueError, s)"
    by (rule revolute_range_error)
next
  assume "other = RigidJoint i \<or> other = RevoluteJoint i"
    and "\<not> in_range (range_lin (linear_joints s self))
        (or_default position (midpoint (range_lin (linear_joints s self))))"
  then show "LinearJoint_connect_to K s self other position angle = Inl (ValueError, s)"
    by (rule linear_position_error)
next
  assume "in_range (range_lin (linear_joints s self)) p"
    and "p = or_default position (midpoint (range_lin (linear_joints s self)))"
    and "\<not> in_range (range_rev (revolute_joints s i))
        (or_default angle (fst (range_rev (revolute_joints s i))))"
  then show "LinearJoint_connect_to K s self (RevoluteJoint i) position angle =
        Inl (ValueError,
             s\<lparr>linear_joints := (linear_joints s)(self := (linear_joints s self)
                  \<lparr>position_lin := Some p\<rparr>)\<rparr>)"
    by (rule linear_angle_error)
next
  assume "\<not> in_range (linear_range_cyl (cylindrical_joints s self))
        (or_default position (midpoint (linear_range_cyl (cylindrical_joints s self))))"
  then show "CylindricalJoint_connect_to K s self (RigidJoint i) position angle =
      Inl (ValueError, s)"
    by (rule cylindrical_position_error)
next
  assume "in_range (linear_range_cyl (cylindrical_joints s self)) q"
    and "q = or_default position (midpoint (linear_range_cyl (cylindrical_joints s self)))"
    and "\<not> in_range (rotational_range_cyl (cylindrical_joints s self))
        (or_default angle (midpoint (rotational_range_cyl (cylindrical_joints s self))))"
  then show "CylindricalJoint_connect_to K s self (RigidJoint i) position angle =
        Inl (ValueError,
             s\<lparr>cylindrical_joints := (cylindrical_joints s)(self := (cylindrical_joints s self)
                  \<lparr>position_cyl := Some q\<rparr>)\<rparr>)"
    by (rule cylindrical_angle_error)
next
  assume rng: "angle_range_ball (ball_joints s self) = (range_x, range_y, range_z)"
    and xyz: "or_default angles (fst range_x, fst range_y, fst range_z) = (x, y, z)"
    and euler: "euler =
      loc_orientation K
        (loc_mul K (Rotation K x y z)
           (plane_to_location K (angle_reference_ball (ball_joints s self))))"
    and out: "\<not> (in_range range_x (vec_X K euler) \<and> in_range range_y (vec_Y K euler) \<and>
       in_range range_z (vec_Z K euler))"
  from out show "BallJoint_connect_to K s self (RigidJoint i) angles = Inl (ValueError, s)"
    unfolding euler by (simp add: ball_rigid [OF rng xyz refl])
qed

text \<open>Each of the six cases, in the scene.\<close>

theorem range_error_effects_witness:
  "RevoluteJoint_connect_to term_kernel scene 0 (RigidJoint 0) (Some 400) =
     Inl (ValueError, scene) \<and>
   LinearJoint_connect_to term_kernel scene 0 (RevoluteJoint (Suc 0)) (Some 13) (Some 60) =
     Inl (ValueError, scene) \<and>
   LinearJoint_connect_to term_kernel scene 0 (RevoluteJoint (Suc 0)) (Some 8) (Some 400) =
     Inl (ValueError,
          scene\<lparr>linear_joints := (linear_joints scene)(0 := (linear_joints scene 0)
               \<lparr>position_lin := Some 8\<rparr>)\<rparr>) \<and>
   CylindricalJoint_connect_to term_kernel scene 0 (RigidJoint 0) (Some 11) (Some 400) =
     Inl (ValueError, scene) \<and>
   CylindricalJoint_connect_to term_kernel scene 0 (RigidJoint 0) (Some 8) (Some 400) =
     Inl (ValueError,
          scene\<lparr>cylindrical_joints := (cylindrical_joints scene)(0 := (cylindrical_joints scene 0)
               \<lparr>position_cyl := Some 8\<rparr>)\<rparr>) \<and>
   BallJoint_connect_to term_kernel scene 0 (RigidJoint 0) (Some (10, 20, - 30)) =
     Inl (ValueError, scene)"
proof -
  have hinge: "\<not> in_range (range_rev (revolute_joints scene 0)) 400"
    by (simp add: scene_simps in_range_def)
  have pin: "\<not> in_range (range_rev (revolute_joints scene (Suc 0))) 400"
    by (simp add: scene_simps in_range_def)
  have socket: "angle_range_ball (ball_joints scene 0) = ((0, 360), (0, 360), (0, 360))"
    by (simp add: scene_simps)
  have euler: "\<not> in_range (0, 360)
      (vec_Z term_kernel
         (loc_orientation term_kernel
            (loc_mul term_kernel (Rotation term_kernel 10 20 (- 30))
               (plane_to_location term_kernel (angle_reference_ball (ball_joints scene 0))))))"
    by (simp add: term_kernel_simps in_range_def)
  have slide: "\<not> in_range (range_lin (linear_joints scene 0)) 13"
    by (simp add: scene_simps in_range_def)
  have hole: "\<not> in_range (linear_range_cyl (cylindrical_joints scene 0)) 11"
    by (simp add: scene_simps in_range_def)
  have hole_in: "in_range (linear_range_cyl (cylindrical_joints scene 0)) 8"
    by (simp add: scene_simps in_range_def)
  have turn: "\<not> in_range (rotational_range_cyl (cylindrical_joints scene 0)) 400"
    by (simp add: scene_simps in_range_def)
  from range_error_effects [where K = term_kernel and s = scene and self = 0 and i = 0
      and angle = "Some 400" and position = "Some 8" and q = 8
      and angles = "Some (10, 20, - 30)" and range_x = "(0, 360)" and range_y = "(0, 360)"
      and range_z = "(0, 360)" and x = 10 and y = 20 and z = "- 30"
      and euler = "loc_orientation term_kernel
            (loc_mul term_kernel (Rotation term_kernel 10 20 (- 30))
               (plane_to_location term_kernel (angle_reference_ball (ball_joints scene 0))))"]
    range_error_effects [where K = term_kernel and s = scene and self = 0 and i = "Suc 0"
      and angle = "Some 400" and position = "Some 8" and p = 8]
    range_error_effects [where K = term_kernel and s = scene and self = 0 and i = "Suc 0"
      and angle = "Some 60" and other = "RevoluteJoint (Suc 0)" and position = "Some 13"]
    range_error_effects [where K = term_kernel and s = scene and self = 0 and i = 0
      and angle = "Some 400" and position = "Some 11"]
    hinge pin slide hole hole_in turn scene_slide_8 socket euler
  show ?thesis
    by (simp add: or_default_simps)
qed

text \<open>
  Claim C1 as it is written has the recorded position unchanged after every range error.
  In the scene neither the slider nor the screw has a recorded position; a call with
  position \<open>8\<close>, in range, and angle \<open>400\<close>, out of range, raises \<^verbatim>\<open>ValueError\<close> and
  leaves \<open>8\<close> recorded.
\<close>

theorem position_recorded_counterexample:
  "position_lin (linear_joints scene 0) = None \<and>
   (case LinearJoint_connect_to term_kernel scene 0 (RevoluteJoint (Suc 0)) (Some 8) (Some 400) of
      Inl (e, s') \<Rightarrow> e = ValueError \<and> position_lin (linear_joints s' 0) = Some 8
    | Inr s' \<Rightarrow> False) \<and>
   position_cyl (cylindrical_joints scene 0) = None \<and>
   (case CylindricalJoint_connect_to term_kernel scene 0 (RigidJoint 0) (Some 8) (Some 400) of
      Inl (e, s') \<Rightarrow> e = ValueError \<and> position_cyl (cylindrical_joints s' 0) = Some 8
    | Inr s' \<Rightarrow> False)"
proof -
  have hinge: "\<not> in_range (range_rev (revolute_joints scene (Suc 0))) 400"
    by (simp add: scene_simps in_range_def)
  have hole_in: "in_range (linear_range_cyl (cylindrical_joints scene 0)) 8"
    by (simp add: scene_simps in_range_def)
  have turn: "\<not> in_range (rotational_range_cyl (cylindrical_joints scene 0)) 400"
    by (simp add: scene_simps in_range_def)
  have "LinearJoint_connect_to term_kernel scene 0 (RevoluteJoint (Suc 0)) (Some 8) (Some 400) =
     Inl (ValueError,
          scene\<lparr>linear_joints := (linear_joints scene)(0 := (linear_joints scene 0)
               \<lparr>position_lin := Some 8\<rparr>)\<rparr>)"
    using hinge by (intro linear_angle_error scene_slide_8) (simp_all add: or_default_simps)
  moreover
  have "CylindricalJoint_connect_to term_kernel scene 0 (RigidJoint 0) (Some 8) (Some 400) =
     Inl (ValueError,
          scene\<lparr>cylindrical_joints := (cylindrical_joints scene)(0 := (cylindrical_joints scene 0)
               \<lparr>position_cyl := Some 8\<rparr>)\<rparr>)"
    using turn by (intro cylindrical_angle_error hole_in) (simp_all add: or_default_simps)
  ultimately show ?thesis
    by (simp add: scene_simps)
qed

section \<open>The test of the partner's class\<close>

text \<open>
  \<^verbatim>\<open>RigidJoint.connect_to\<close> with a partner that is not a \<^verbatim>\<open>RigidJoint\<close>: the three classes
  without \<^verbatim>\<open>relative_location\<close> give \<^verbatim>\<open>AttributeError\<close>, and a \<^verbatim>\<open>BallJoint\<close>, which has
  the attribute, is connected as if it were rigid.
\<close>

lemma rigid_revolute: "RigidJoint_connect_to K s self (RevoluteJoint i) = Inl (AttributeError, s)"
  by (simp add: RigidJoint_connect_to_def relative_location_of_def)

lemma rigid_linear: "RigidJoint_connect_to K s self (LinearJoint i) = Inl (AttributeError, s)"
  by (simp add: RigidJoint_connect_to_def relative_location_of_def)

lemma rigid_cylindrical:
  "RigidJoint_connect_to K s self (CylindricalJoint i) = Inl (AttributeError, s)"
  by (simp add: RigidJoint_connect_to_def relative_location_of_def)

lemma rigid_ball:
  "RigidJoint_connect_to K s self (BallJoint i) =
     Inr (s\<lparr>location := (location s)(parent (ball_joints s i) :=
               loc_mul K
                 (loc_mul K (location s (parent (rigid_joints s self)))
                    (relative_location_rigid (rigid_joints s self)))
                 (relative_location_ball (ball_joints s i))),
            rigid_joints := (rigid_joints s)(self := (rigid_joints s self)
               \<lparr>connected_to := Some (BallJoint i)\<rparr>)\<rparr>)"
  by (simp add: RigidJoint_connect_to_def relative_location_of_def parent_of_def locate_def Let_def)

text \<open>The other four classes raise \<^verbatim>\<open>TypeError\<close> on a partner they do not accept.\<close>

lemma partner_type_checked:
  "\<forall>i. other \<noteq> RigidJoint i \<Longrightarrow>
     RevoluteJoint_connect_to K s self other angle = Inl (TypeError, s)"
  "\<forall>i. other \<noteq> RigidJoint i \<Longrightarrow> \<forall>i. other \<noteq> RevoluteJoint i \<Longrightarrow>
     LinearJoint_connect_to K s self other position angle = Inl (TypeError, s)"
  "\<forall>i. other \<noteq> RigidJoint i \<Longrightarrow>
     CylindricalJoint_connect_to K s self other position angle = Inl (TypeError, s)"
  "\<forall>i. other \<noteq> RigidJoint i \<Longrightarrow>
     BallJoint_connect_to K s self other angles = Inl (TypeError, s)"
  by (cases other;
      simp add: RevoluteJoint_connect_to_def LinearJoint_connect_to_def
        CylindricalJoint_connect_to_def BallJoint_connect_to_def)+

text \<open>
  Claim C4 says that every \<^verbatim>\<open>connect_to\<close> raises a type error on a partner outside its
  accepted set, and that \<^verbatim>\<open>RigidJoint.connect_to\<close> does so on a \<^verbatim>\<open>RevoluteJoint\<close>. In the
  scene, rigid joint \<open>0\<close> called with the hinge raises \<^verbatim>\<open>AttributeError\<close>, not
  \<^verbatim>\<open>TypeError\<close>, and called with the ball socket it succeeds and moves the base, where
  the hinge and the screw called with the same hinge raise \<^verbatim>\<open>TypeError\<close>.
\<close>

theorem rigid_connect_unchecked:
  "RigidJoint_connect_to term_kernel scene 0 (RevoluteJoint 0) = Inl (AttributeError, scene) \<and>
   RigidJoint_connect_to term_kernel scene 0 (BallJoint 0) =
     Inr (scene\<lparr>location := (location scene)(0 :=
            Fn ''mul'' [Fn ''mul'' [Fn ''placed'' [Num 2], Fn ''at'' [Num 0]], Fn ''socket_at'' []]),
          rigid_joints := (rigid_joints scene)(0 := (rigid_joints scene 0)
            \<lparr>connected_to := Some (BallJoint 0)\<rparr>)\<rparr>) \<and>
   RevoluteJoint_connect_to term_kernel scene 0 (RevoluteJoint 0) None = Inl (TypeError, scene) \<and>
   CylindricalJoint_connect_to term_kernel scene 0 (RevoluteJoint 0) None None =
     Inl (TypeError, scene)"
  by (simp add: rigid_revolute rigid_ball partner_type_checked scene_simps term_kernel_simps)

section \<open>Construction with a reference direction\<close>

text \<open>
  \<^verbatim>\<open>RevoluteJoint.__init__\<close> tests a reference that is passed for normality and stores it,
  and derives one when none is passed. \<^verbatim>\<open>CylindricalJoint.__init__\<close> derives one in the
  same way, but raises \<^verbatim>\<open>AttributeError\<close> on every reference that is passed.
\<close>

lemma revolute_init_reference:
  "RevoluteJoint_init K s self lbl part axis (Some v) rng =
     (if axis_is_normal K axis (Axis K (vec K 0 0 0) v)
      then Inr (s\<lparr>joints := (joints s)(part := (joints s part)(lbl \<mapsto> RevoluteJoint self)),
                 revolute_joints := (revolute_joints s)(self :=
                   \<lparr>label = lbl, to_part = part, parent = part, connected_to = None,
                    range_rev = rng, angle_reference_rev = v, angle_rev = None,
                    relative_axis_rev =
                      axis_located K axis (loc_inverse K (location s part))\<rparr>)\<rparr>)
      else Inl (ValueError, s))"
  by (simp add: RevoluteJoint_init_def register_def Let_def)

lemma revolute_init_derived:
  "RevoluteJoint_init K s self lbl part axis None rng =
     Inr (s\<lparr>joints := (joints s)(part := (joints s part)(lbl \<mapsto> RevoluteJoint self)),
            revolute_joints := (revolute_joints s)(self :=
              \<lparr>label = lbl, to_part = part, parent = part, connected_to = None,
               range_rev = rng,
               angle_reference_rev =
                 plane_x_dir K (Plane_oz K (vec K 0 0 0) (axis_direction K axis)),
               angle_rev = None,
               relative_axis_rev = axis_located K axis (loc_inverse K (location s part))\<rparr>)\<rparr>)"
  by (simp add: RevoluteJoint_init_def register_def Let_def)

lemma cylindrical_init_reference:
  "CylindricalJoint_init K s self lbl part axis (Some v) linear_range rotational_range =
     Inl (AttributeError, s)"
  by (simp add: CylindricalJoint_init_def)

lemma cylindrical_init_derived:
  "CylindricalJoint_init K s self lbl part axis None linear_range rotational_range =
     Inr (s\<lparr>joints := (joints s)(part := (joints s part)(lbl \<mapsto> CylindricalJoint self)),
            cylindrical_joints := (cylindrical_joints s)(self :=
              \<lparr>label = lbl, to_part = part, parent = part, connected_to = None,
               axis_cyl = axis, linear_position_cyl = None, rotational_position_cyl = None,
               angle_reference_cyl =
                 plane_x_dir K (Plane_oz K (vec K 0 0 0) (axis_direction K axis)),
               rotational_range_cyl = rotational_range, linear_range_cyl = linear_range,
               relative_axis_cyl = axis_located K axis (loc_inverse K (location s part)),
               position_cyl = None, angle_cyl = None\<rparr>)\<rparr>)"
  by (simp add: CylindricalJoint_init_def register_def Let_def)

text \<open>In the term kernel the y direction is normal to the x axis.\<close>

lemma y_normal_to_x:
  "axis_is_normal term_kernel x_axis
     (Axis term_kernel (vec term_kernel 0 0 0) (Fn ''Vector'' [Num 0, Num 1, Num 0]))"
  by (simp add: term_kernel_simps tm_is_normal_def x_axis_def)

text \<open>
  Claim C7 says that both \<^verbatim>\<open>RevoluteJoint\<close> and \<^verbatim>\<open>CylindricalJoint\<close> accept and store a
  reference direction that is normal to the axis. With the x axis and the y direction,
  which is normal to it, the construction of a \<^verbatim>\<open>CylindricalJoint\<close> on the base raises
  \<^verbatim>\<open>AttributeError\<close>, where the construction of a \<^verbatim>\<open>RevoluteJoint\<close> from the same axis
  and reference succeeds and stores the reference.
\<close>

theorem cylindrical_reference_rejected:
  "axis_is_normal term_kernel x_axis
     (Axis term_kernel (vec term_kernel 0 0 0) (Fn ''Vector'' [Num 0, Num 1, Num 0])) \<and>
   CylindricalJoint_init term_kernel scene 1 ''screw'' 0 x_axis
       (Some (Fn ''Vector'' [Num 0, Num 1, Num 0])) (- 10, 10) (0, 360) =
     Inl (AttributeError, scene) \<and>
   (case RevoluteJoint_init term_kernel scene 2 ''door'' 0 x_axis
       (Some (Fn ''Vector'' [Num 0, Num 1, Num 0])) (0, 360) of
      Inl e \<Rightarrow> False
    | Inr s' \<Rightarrow> angle_reference_rev (revolute_joints s' 2) = Fn ''Vector'' [Num 0, Num 1, Num 0])"
  by (simp add: y_normal_to_x cylindrical_init_reference revolute_init_reference)

section \<open>What a successful call changes\<close>












end
